theory Spec2Isabelle
  imports Main "HOL-Library.Word"
begin

section \<open>The data model of raw\_other.go\<close>

text \<open>
  Payloads and option data are byte slices; a byte is a \<open>char\<close>, so that the
  comparisons of the source against the literals \<open>"POST"\<close>, \<open>"HTTP"\<close> and
  \<open>"\r\n\r\n"\<close> read as they do there. A nil slice is the empty list, except for
  the cached response of a connection record, whose nil test the source performs.
\<close>

type_synonym bytes = string

datatype IP = IPv4 "8 word" "8 word" "8 word" "8 word"

record UDPAddr =
  IP_of :: IP
  Port :: nat

fun digit :: "nat \<Rightarrow> char" where
  "digit n = char_of (48 + n)"

fun itoa :: "nat \<Rightarrow> string" where
  "itoa n = (if n < 10 then [digit n] else itoa (n div 10) @ [digit (n mod 10)])"

declare itoa.simps [simp del]

fun IP_String :: "IP \<Rightarrow> string" where
  "IP_String (IPv4 a b c d) =
     itoa (unat a) @ ''.'' @ itoa (unat b) @ ''.'' @ itoa (unat c) @ ''.'' @ itoa (unat d)"

definition UDPAddr_String :: "UDPAddr \<Rightarrow> string" where
  "UDPAddr_String a = IP_String (IP_of a) @ '':'' @ itoa (Port a)"

text \<open>The errors of the source. \<open>TimeoutErr op\<close> is the source's \<open>timeoutErr\<close>,
  \<open>ErrMsg\<close> an error made by \<open>errors.New\<close> or \<open>fmt.Errorf\<close>, \<open>IOErr\<close> an error
  handed back by serialisation or by the capture handle, and \<open>Panic\<close> a run-time
  panic (nil dereference, index out of range).\<close>

datatype error = TimeoutErr string | ErrMsg string | IOErr string | Panic string

text \<open>Modelled from the spec: the type \<open>timeoutErr\<close> is declared outside
  raw\_other.go; the spec calls the read timeout a temporary error, so it is the one
  error for which \<open>err.(net.Error)\<close> succeeds and \<open>Temporary()\<close> holds.\<close>

fun Temporary :: "error \<Rightarrow> bool" where
  "Temporary (TimeoutErr _) = True"
| "Temporary _ = False"

record Ethernet =
  SrcMAC :: "48 word"
  DstMAC :: "48 word"
  EthernetType :: "16 word"

record IPv4hdr =
  SrcIP :: IP
  DstIP :: IP
  Protocol :: "8 word"
  Version :: "8 word"
  IPId :: "16 word"
  Flags :: "8 word"
  TTL :: "8 word"
  TOS :: "8 word"

record TCPOption =
  OptionType :: "8 word"
  OptionLength :: "8 word"
  OptionData :: bytes

record TCP =
  SrcPort :: "16 word"
  DstPort :: "16 word"
  Seq :: "32 word"
  Ack :: "32 word"
  FIN :: bool
  SYN :: bool
  RST :: bool
  PSH :: bool
  ACK :: bool
  URG :: bool
  ECE :: bool
  CWR :: bool
  NS :: bool
  Window :: "16 word"
  Options :: "TCPOption list"
  Padding :: bytes
  Payload :: bytes

record pktLayers =
  eth :: "Ethernet option"
  ip4 :: IPv4hdr
  tcp :: TCP

text \<open>Modelled from the spec: the struct \<open>Raw\<close> is declared outside raw\_other.go;
  these are the fields the file reads, the four options the spec lists.\<close>

record Raw =
  NoHTTP :: bool
  IgnRST :: bool
  DSCP :: int
  Host :: string

text \<open>What a send leaves behind, in order: taking and releasing \<open>conn.lock\<close>, and a
  frame handed to the capture handle. The link layer of a frame is Ethernet when
  \<open>eth\<close> is set and the loopback tag otherwise, as in \<open>sendPacket\<close>.\<close>

datatype event = LockTaken | LockReleased | Injected pktLayers

fun wire :: "event list \<Rightarrow> pktLayers list" where
  "wire [] = []"
| "wire (Injected p # es) = p # wire es"
| "wire (_ # es) = wire es"

text \<open>
  \<open>RAWConn\<close>: the fields of the struct that the file reads (\<open>layer\<close> is a pointer
  into \<open>heap\<close>, \<open>None\<close> is nil; \<open>udp\<close>, \<open>handle\<close> and \<open>rtimer\<close> say whether the
  pointer is set, \<open>closed\<close> whether \<open>close\<close> has closed what they point to),
  followed by the memory and the environment the methods act on:
  \<open>heap\<close> holds the header templates, \<open>nextp\<close> is the next free address, \<open>trace\<close>
  the events so far, \<open>sends\<close> the number of calls of \<open>sendPacket\<close> so far, and
  \<open>inject k\<close> the outcome of serialising and writing the \<open>k\<close>-th of them
  (\<open>None\<close>: written). \<open>randId\<close> and \<open>randSeq\<close> give the random IPv4 ID and initial
  sequence number drawn for the template allocated at an address.
\<close>

record RAWConn =
  udp :: bool
  handle :: bool
  layer :: "nat option"
  rtimer :: bool
  closed :: bool
  hseqn :: "32 word"
  mss :: int
  r_raw :: Raw
  heap :: "nat \<Rightarrow> pktLayers option"
  nextp :: nat
  trace :: "event list"
  sends :: nat
  inject :: "nat \<Rightarrow> error option"
  randId :: "nat \<Rightarrow> 16 word"
  randSeq :: "nat \<Rightarrow> 32 word"

section \<open>Sending\<close>

text \<open>The template \<open>conn.layer\<close> points to, with its address; \<open>None\<close> when the
  pointer is nil, where every use of it panics.\<close>

definition deref :: "'a RAWConn_scheme \<Rightarrow> (nat \<times> pktLayers) option" where
  "deref conn = (case layer conn of None \<Rightarrow> None
     | Some p \<Rightarrow> (case heap conn p of None \<Rightarrow> None | Some l \<Rightarrow> Some (p, l)))"

definition nil_deref :: error where
  "nil_deref = Panic ''invalid memory address or nil pointer dereference''"

text \<open>An assignment through \<open>conn.layer.tcp\<close> and through \<open>conn.layer.ip4\<close>.\<close>

definition set_tcp :: "(TCP \<Rightarrow> TCP) \<Rightarrow> 'a RAWConn_scheme \<Rightarrow> 'a RAWConn_scheme" where
  "set_tcp f conn = (case deref conn of None \<Rightarrow> conn
     | Some (p, l) \<Rightarrow> conn\<lparr>heap := (heap conn)(p \<mapsto> l\<lparr>tcp := f (tcp l)\<rparr>)\<rparr>)"

definition set_ip4 :: "(IPv4hdr \<Rightarrow> IPv4hdr) \<Rightarrow> 'a RAWConn_scheme \<Rightarrow> 'a RAWConn_scheme" where
  "set_ip4 f conn = (case deref conn of None \<Rightarrow> conn
     | Some (p, l) \<Rightarrow> conn\<lparr>heap := (heap conn)(p \<mapsto> l\<lparr>ip4 := f (ip4 l)\<rparr>)\<rparr>)"

text \<open>\<open>sendPacket\<close>: the ID of the template is incremented first, then the template
  is serialised and written; on an error of either step nothing reaches the wire.\<close>

definition sendPacket :: "'a RAWConn_scheme \<Rightarrow> error option \<times> 'a RAWConn_scheme" where
  "sendPacket conn =
     (case deref conn of None \<Rightarrow> (Some nil_deref, conn)
      | Some _ \<Rightarrow>
        (let c1 = set_ip4 (\<lambda>h. h\<lparr>IPId := IPId h + 1\<rparr>) conn;
             c2 = c1\<lparr>sends := sends c1 + 1\<rparr>
         in case inject conn (sends conn) of
              Some e \<Rightarrow> (Some e, c2)
            | None \<Rightarrow> (case deref c2 of None \<Rightarrow> (Some nil_deref, c2)
                 | Some (_, l) \<Rightarrow> (None, c2\<lparr>trace := trace c2 @ [Injected l]\<rparr>))))"

definition updateTCP :: "'a RAWConn_scheme \<Rightarrow> 'a RAWConn_scheme option" where
  "updateTCP conn =
     (case deref conn of None \<Rightarrow> None
      | Some _ \<Rightarrow> Some (set_tcp (\<lambda>t. t\<lparr>Padding := [], FIN := False, PSH := False,
                                      ACK := False, RST := False, SYN := False\<rparr>) conn))"

definition syn_options :: "TCPOption list" where
  "syn_options =
     [\<lparr>OptionType = 2, OptionLength = 4, OptionData = [char_of (0x5::nat), char_of (0xb4::nat)]\<rparr>,
      \<lparr>OptionType = 3, OptionLength = 3, OptionData = [char_of (0x6::nat)]\<rparr>,
      \<lparr>OptionType = 4, OptionLength = 2, OptionData = []\<rparr>]"

text \<open>The helpers. Each returns the error of \<open>sendPacket\<close> and the connection after
  the call; the deferred assignments (options restored, payload cleared) run after
  the send, whatever its outcome.\<close>

definition sendSyn :: "'a RAWConn_scheme \<Rightarrow> error option \<times> 'a RAWConn_scheme" where
  "sendSyn conn =
     (case updateTCP conn of None \<Rightarrow> (Some nil_deref, conn)
      | Some c0 \<Rightarrow>
        (case deref c0 of None \<Rightarrow> (Some nil_deref, conn)
         | Some (_, l) \<Rightarrow>
           (let options = Options (tcp l);
                c1 = set_tcp (\<lambda>t. t\<lparr>SYN := True\<rparr>) c0;
                c2 = set_tcp (\<lambda>t. t\<lparr>Options := Options t @ syn_options\<rparr>) c1;
                (err, c3) = sendPacket c2
            in (err, set_tcp (\<lambda>t. t\<lparr>Options := options\<rparr>) c3))))"

definition sendSynAck :: "'a RAWConn_scheme \<Rightarrow> error option \<times> 'a RAWConn_scheme" where
  "sendSynAck conn =
     (case updateTCP conn of None \<Rightarrow> (Some nil_deref, conn)
      | Some c0 \<Rightarrow>
        (case deref c0 of None \<Rightarrow> (Some nil_deref, conn)
         | Some (_, l) \<Rightarrow>
           (let options = Options (tcp l);
                c1 = set_tcp (\<lambda>t. t\<lparr>SYN := True, ACK := True\<rparr>) c0;
                c2 = set_tcp (\<lambda>t. t\<lparr>Options := Options t @ syn_options\<rparr>) c1;
                (err, c3) = sendPacket c2
            in (err, set_tcp (\<lambda>t. t\<lparr>Options := options\<rparr>) c3))))"

definition sendAck :: "'a RAWConn_scheme \<Rightarrow> error option \<times> 'a RAWConn_scheme" where
  "sendAck conn =
     (case updateTCP conn of None \<Rightarrow> (Some nil_deref, conn)
      | Some c0 \<Rightarrow> sendPacket (set_tcp (\<lambda>t. t\<lparr>ACK := True\<rparr>) c0))"

definition sendFin :: "'a RAWConn_scheme \<Rightarrow> error option \<times> 'a RAWConn_scheme" where
  "sendFin conn =
     (case updateTCP conn of None \<Rightarrow> (Some nil_deref, conn)
      | Some c0 \<Rightarrow> sendPacket (set_tcp (\<lambda>t. t\<lparr>FIN := True\<rparr>) c0))"

definition sendRst :: "'a RAWConn_scheme \<Rightarrow> error option \<times> 'a RAWConn_scheme" where
  "sendRst conn =
     (case updateTCP conn of None \<Rightarrow> (Some nil_deref, conn)
      | Some c0 \<Rightarrow> sendPacket (set_tcp (\<lambda>t. t\<lparr>RST := True\<rparr>) c0))"

text \<open>\<open>RAWConn.write\<close> (lower case in the source): the payload is sent with PSH and
  ACK and the sequence number is left alone.\<close>

definition write_seg :: "'a RAWConn_scheme \<Rightarrow> bytes \<Rightarrow> (nat \<times> error option) \<times> 'a RAWConn_scheme" where
  "write_seg conn b =
     (case updateTCP conn of None \<Rightarrow> ((length b, Some nil_deref), conn)
      | Some c0 \<Rightarrow>
        (let c1 = set_tcp (\<lambda>t. t\<lparr>PSH := True, ACK := True, Payload := b\<rparr>) c0;
             (err, c2) = sendPacket c1
         in ((length b, err), set_tcp (\<lambda>t. t\<lparr>Payload := []\<rparr>) c2)))"

text \<open>\<open>RAWConn.Write\<close>: under \<open>conn.lock\<close>, \<open>write\<close> and then
  \<open>conn.layer.tcp.Seq += uint32(n)\<close>, with no test of \<open>err\<close> in between. A panic
  leaves the function at once (the deferred unlock still runs).\<close>

definition Write :: "'a RAWConn_scheme \<Rightarrow> bytes \<Rightarrow> (nat \<times> error option) \<times> 'a RAWConn_scheme" where
  "Write conn b =
     (let c0 = conn\<lparr>trace := trace conn @ [LockTaken]\<rparr>;
          ((n, err), c1) = write_seg c0 b;
          c2 = (if deref c1 = None then c1
                else set_tcp (\<lambda>t. t\<lparr>Seq := Seq t + of_nat n\<rparr>) c1)
      in ((n, if deref c1 = None then Some nil_deref else err),
          c2\<lparr>trace := trace c2 @ [LockReleased]\<rparr>))"

text \<open>\<open>RAWConn.close\<close>: a FIN when both pointers are set (its error is dropped), then
  the socket and the handle are closed. The error of \<open>udp.Close()\<close>, which the
  function returns, is a result of the operating system and is left out.\<close>

definition close_conn :: "'a RAWConn_scheme \<Rightarrow> 'a RAWConn_scheme" where
  "close_conn conn =
     (let c1 = (if udp conn \<and> handle conn then snd (sendFin conn) else conn)
      in c1\<lparr>closed := True\<rparr>)"

definition LocalAddr :: "'a RAWConn_scheme \<Rightarrow> UDPAddr option" where
  "LocalAddr conn = (case deref conn of None \<Rightarrow> None
     | Some (_, l) \<Rightarrow> Some \<lparr>IP_of = SrcIP (ip4 l), Port = unat (SrcPort (tcp l))\<rparr>)"

definition RemoteAddr :: "'a RAWConn_scheme \<Rightarrow> UDPAddr option" where
  "RemoteAddr conn = (case deref conn of None \<Rightarrow> None
     | Some (_, l) \<Rightarrow> Some \<lparr>IP_of = DstIP (ip4 l), Port = unat (DstPort (tcp l))\<rparr>)"

section \<open>Reading\<close>

text \<open>What the channel \<open>conn.packets\<close> and the read timer deliver, in the order in
  which \<open>readLayers\<close> receives it: a captured packet with the layers gopacket
  decoded, the firing of \<open>conn.rtimer\<close>, or the closed channel. A list of these that
  runs out stands for a read that blocks for ever.\<close>

record packet =
  ethLayer :: "Ethernet option"
  loopLayer :: bool
  ipLayer :: "IPv4hdr option"
  tcpLayer :: "TCP option"

datatype rd_event = Captured packet | TimerFired | ChanClosed

fun getMssFromOptions :: "TCPOption list \<Rightarrow> error + int" where
  "getMssFromOptions [] = Inr 0"
| "getMssFromOptions (v # vs) =
     (if OptionType v \<noteq> 2 \<or> length (OptionData v) = 0 then getMssFromOptions vs
      else (case OptionData v of
              a # b # _ \<Rightarrow> Inr (int (256 * of_char a + of_char b))
            | _ \<Rightarrow> Inl (Panic ''index out of range'')))"

definition getMssFromTcpLayer :: "TCP \<Rightarrow> error + int" where
  "getMssFromTcpLayer t = getMssFromOptions (Options t)"

text \<open>\<open>readLayers\<close> returns the error or the layers of the first packet it does not
  skip, and what is left of the input; \<open>None\<close> when the input runs out. A timer that
  is not set cannot fire: its event is passed over.\<close>

fun readLayers :: "'a RAWConn_scheme \<Rightarrow> rd_event list \<Rightarrow> ((error + pktLayers) \<times> rd_event list) option" where
  "readLayers conn [] = None"
| "readLayers conn (TimerFired # evs) =
     (if rtimer conn
      then Some (Inl (case RemoteAddr conn of None \<Rightarrow> nil_deref
                      | Some a \<Rightarrow> TimeoutErr (''read from '' @ UDPAddr_String a)), evs)
      else readLayers conn evs)"
| "readLayers conn (ChanClosed # evs) = Some (Inl (ErrMsg ''read from closed connection''), evs)"
| "readLayers conn (Captured p # evs) =
     (if ethLayer p = None \<and> \<not> loopLayer p then readLayers conn evs
      else (case ipLayer p of None \<Rightarrow> readLayers conn evs
        | Some i \<Rightarrow> (case tcpLayer p of None \<Rightarrow> readLayers conn evs
          | Some t \<Rightarrow> if IgnRST (r_raw conn) \<and> RST t then readLayers conn evs
                      else Some (Inr \<lparr>eth = ethLayer p, ip4 = i, tcp = t\<rparr>, evs))))"

lemma readLayers_shorter:
  "readLayers conn evs = Some (x, rest) \<Longrightarrow> length rest < length evs"
proof (induction evs)
  case Nil
  then show ?case by simp
next
  case (Cons ev evs)
  then show ?case
    by (cases ev) (auto split: if_splits option.splits simp: less_Suc_eq)
qed

text \<open>What a read returns: the count \<open>n\<close>, the address, the error, and the caller's
  buffer after \<open>copy\<close>.\<close>

record read_result =
  n_of :: nat
  addr_of :: "UDPAddr option"
  err_of :: "error option"
  buf_of :: bytes

definition copy_into :: "bytes \<Rightarrow> bytes \<Rightarrow> nat \<times> bytes" where
  "copy_into b src = (let n = min (length b) (length src) in (n, take n src @ drop n b))"

definition CRLFCRLF :: bytes where
  "CRLFCRLF = [CHR 0x0D, CHR 0x0A, CHR 0x0D, CHR 0x0A]"

text \<open>The body of the loop of \<open>RAWConn.ReadFrom\<close> for one packet that \<open>readLayers\<close>
  returned: \<open>None\<close> is \<open>continue\<close>. The lengths compared as \<open>uint64\<close> in the source
  are natural numbers here (a payload is far shorter than \<open>2^64\<close> bytes).\<close>

definition ReadFrom_body ::
  "'a RAWConn_scheme \<Rightarrow> bytes \<Rightarrow> pktLayers \<Rightarrow> read_result option \<times> 'a RAWConn_scheme" where
  "ReadFrom_body conn b cl =
     (let t = tcp cl in
      if SYN t \<and> ACK t then
        (case sendAck conn of
           (Some e, c1) \<Rightarrow> (Some \<lparr>n_of = 0, addr_of = None, err_of = Some e, buf_of = b\<rparr>, c1)
         | (None, c1) \<Rightarrow> (None, c1))
      else if \<not> PSH t \<or> \<not> ACK t \<or> Seq t = hseqn conn then (None, conn)
      else
        (case (if udp conn then RemoteAddr conn
               else Some \<lparr>IP_of = SrcIP (ip4 cl), Port = unat (SrcPort t)\<rparr>) of
           None \<Rightarrow> (Some \<lparr>n_of = 0, addr_of = None, err_of = Some nil_deref, buf_of = b\<rparr>, conn)
         | Some a \<Rightarrow>
           (let n = length (Payload t) in
            if n > 0 then
              (case deref conn of
                 None \<Rightarrow> (Some \<lparr>n_of = n, addr_of = Some a, err_of = Some nil_deref, buf_of = b\<rparr>, conn)
               | Some (_, l) \<Rightarrow>
                 (let c1 = (if unat (Seq t) + n > unat (Ack (tcp l))
                            then set_tcp (\<lambda>x. x\<lparr>Ack := Seq t + of_nat n\<rparr>) conn else conn);
                      (m, b') = copy_into b (Payload t)
                  in (Some \<lparr>n_of = m, addr_of = Some a, err_of = None, buf_of = b'\<rparr>, c1)))
            else (Some \<lparr>n_of = n, addr_of = Some a, err_of = None, buf_of = b\<rparr>, conn))))"

function ReadFrom_loop ::
  "'a RAWConn_scheme \<Rightarrow> bytes \<Rightarrow> rd_event list \<Rightarrow> (read_result \<times> 'a RAWConn_scheme \<times> rd_event list) option" where
  "ReadFrom_loop conn b evs =
     (case readLayers conn evs of
        None \<Rightarrow> None
      | Some (Inl e, rest) \<Rightarrow>
          Some (\<lparr>n_of = 0, addr_of = None, err_of = Some e, buf_of = b\<rparr>, conn, rest)
      | Some (Inr cl, rest) \<Rightarrow>
          (case ReadFrom_body conn b cl of
             (Some res, c1) \<Rightarrow> Some (res, c1, rest)
           | (None, c1) \<Rightarrow> ReadFrom_loop c1 b rest))"
  by pat_completeness auto
termination
  by (relation "measure (\<lambda>(conn, b, evs). length evs)") (auto dest: readLayers_shorter)

text \<open>\<open>RAWConn.ReadFrom\<close>: the loop, and the deferred \<open>conn.rtimer = nil\<close> at every
  return.\<close>

definition ReadFrom ::
  "'a RAWConn_scheme \<Rightarrow> bytes \<Rightarrow> rd_event list \<Rightarrow> (read_result \<times> 'a RAWConn_scheme \<times> rd_event list) option" where
  "ReadFrom conn b evs =
     (case ReadFrom_loop conn b evs of None \<Rightarrow> None
      | Some (res, c1, rest) \<Rightarrow> Some (res, c1\<lparr>rtimer := False\<rparr>, rest))"

section \<open>Dialling\<close>

text \<open>
  \<open>DialRAW\<close> from the point where the connection value is built. What comes before
  (finding the interface, opening the handle, the probe that learns the Ethernet
  header, the filters) talks to the operating system; its results are the arguments
  \<open>e\<close> (the Ethernet header, if any), \<open>local\<close> and \<open>remote\<close>. The template lives at
  address 0 with the ID \<open>rid 0\<close> and the sequence number \<open>rseq 0\<close>.
\<close>

definition newRAWConn ::
  "Raw \<Rightarrow> Ethernet option \<Rightarrow> UDPAddr \<Rightarrow> UDPAddr \<Rightarrow> (nat \<Rightarrow> error option) \<Rightarrow>
   (nat \<Rightarrow> 16 word) \<Rightarrow> (nat \<Rightarrow> 32 word) \<Rightarrow> RAWConn" where
  "newRAWConn r e local remote outc rid rseq =
     \<lparr>udp = True, handle = True, layer = Some 0, rtimer = False, closed = False,
      hseqn = 0, mss = 0, r_raw = r,
      heap = [0 \<mapsto>
        \<lparr>eth = e,
         ip4 = \<lparr>SrcIP = IP_of local, DstIP = IP_of remote, Protocol = 6, Version = 4,
                IPId = rid 0, Flags = 2, TTL = 0x40, TOS = of_int (DSCP r)\<rparr>,
         tcp = \<lparr>SrcPort = of_nat (Port local), DstPort = of_nat (Port remote),
                Seq = rseq 0, Ack = 0,
                FIN = False, SYN = False, RST = False, PSH = False, ACK = False,
                URG = False, ECE = False, CWR = False, NS = False,
                Window = 12580, Options = [], Padding = [], Payload = []\<rparr>\<rparr>],
      nextp = 1, trace = [], sends = 0, inject = outc, randId = rid, randSeq = rseq\<rparr>"

text \<open>The first loop of \<open>DialRAW\<close> (the TCP handshake), entered with \<open>retry\<close>. It
  returns the error, the saved pair \<open>(ackn, seqn)\<close>, the connection and the rest of
  the input. A packet that is not a SYN+ACK also leaves the loop, without an error.\<close>

function dial_handshake ::
  "nat \<Rightarrow> RAWConn \<Rightarrow> rd_event list \<Rightarrow>
   (error option \<times> (32 word \<times> 32 word) \<times> RAWConn \<times> rd_event list) option" where
  "dial_handshake retry conn evs =
     (if retry > 5 then Some (Some (ErrMsg ''retry too many times''), (0, 0), conn, evs)
      else
        (case sendSyn conn of
           (Some e, c1) \<Rightarrow> Some (Some e, (0, 0), c1, evs)
         | (None, c1) \<Rightarrow>
           (let c2 = c1\<lparr>rtimer := True\<rparr> in
            case readLayers c2 evs of
              None \<Rightarrow> None
            | Some (Inl e, rest) \<Rightarrow>
                if \<not> Temporary e then Some (Some e, (0, 0), c2, rest)
                else dial_handshake (retry + 1) c2 rest
            | Some (Inr cl, rest) \<Rightarrow>
                if SYN (tcp cl) \<and> ACK (tcp cl) then
                  (case deref c2 of
                     None \<Rightarrow> Some (Some nil_deref, (0, 0), c2, rest)
                   | Some (_, l) \<Rightarrow>
                     (let ackn = Seq (tcp cl) + 1;
                          seqn = Seq (tcp l) + 1;
                          c3 = set_tcp (\<lambda>t. t\<lparr>Ack := ackn, Seq := seqn\<rparr>) c2
                      in case getMssFromTcpLayer (tcp cl) of
                           Inl e \<Rightarrow> Some (Some e, (ackn, seqn), c3, rest)
                         | Inr m \<Rightarrow>
                           (case sendAck (c3\<lparr>mss := m\<rparr>) of
                              (err, c4) \<Rightarrow> Some (err, (ackn, seqn), c4, rest))))
                else Some (None, (0, 0), c2, rest))))"
  by pat_completeness auto
termination
  by (relation "measure (\<lambda>(retry, conn, evs). 6 - retry)") auto

text \<open>The second loop (the HTTP decoy), with the request \<open>req\<close> that
  \<open>buildHTTPRequest\<close> made.\<close>

function dial_http ::
  "nat \<Rightarrow> bytes \<Rightarrow> (32 word \<times> 32 word) \<Rightarrow> RAWConn \<Rightarrow> rd_event list \<Rightarrow>
   (error option \<times> RAWConn \<times> rd_event list) option" where
  "dial_http retry req saved conn evs =
     (if retry > 5 then Some (Some (ErrMsg ''retry too many times''), conn, evs)
      else
        (case write_seg conn req of
           ((_, Some e), c1) \<Rightarrow> Some (Some e, c1, evs)
         | ((_, None), c1) \<Rightarrow>
           (let c2 = c1\<lparr>rtimer := True\<rparr> in
            case readLayers c2 evs of
              None \<Rightarrow> None
            | Some (Inl e, rest) \<Rightarrow>
                if \<not> Temporary e then Some (Some e, c2, rest)
                else dial_http (retry + 1) req saved c2 rest
            | Some (Inr cl, rest) \<Rightarrow>
                if SYN (tcp cl) \<and> ACK (tcp cl) then
                  (case sendAck (set_tcp (\<lambda>t. t\<lparr>Ack := fst saved, Seq := snd saved\<rparr>) c2) of
                     (Some e, c3) \<Rightarrow> Some (Some e, c3, rest)
                   | (None, c3) \<Rightarrow> dial_http (retry + 1) req saved c3 rest)
                else
                  (let n = length (Payload (tcp cl)) in
                   if PSH (tcp cl) \<and> ACK (tcp cl) \<and> n \<ge> 20
                      \<and> take 4 (Payload (tcp cl)) = ''HTTP''
                      \<and> drop (n - 4) (Payload (tcp cl)) = CRLFCRLF
                   then Some (None,
                          (set_tcp (\<lambda>t. t\<lparr>Seq := Seq t + of_nat (length req),
                                           Ack := Seq (tcp cl) + of_nat n\<rparr>) c2)
                            \<lparr>hseqn := Seq (tcp cl)\<rparr>, rest)
                   else dial_http (retry + 1) req saved c2 rest))))"
  by pat_completeness auto
termination
  by (relation "measure (\<lambda>(retry, req, saved, conn, evs). 6 - retry)") auto

text \<open>The deferred functions of \<open>DialRAW\<close>, in the order they run: the read timer is
  dropped, and the connection is closed when \<open>err\<close> is set (a panic unwinds with
  \<open>err\<close> as it was, nil). Starting \<open>ackSender\<close> is not modelled.\<close>

definition dial_deferred :: "error option \<Rightarrow> RAWConn \<Rightarrow> RAWConn" where
  "dial_deferred err conn =
     (let c1 = conn\<lparr>rtimer := False\<rparr> in
      case err of
        None \<Rightarrow> c1
      | Some (Panic _) \<Rightarrow> c1
      | Some _ \<Rightarrow> close_conn c1)"

definition buildHeaders :: "Raw \<Rightarrow> string" where
  "buildHeaders r =
     (if length (Host r) \<noteq> 0
      then ''Host: '' @ Host r @ [CHR 0x0D, CHR 0x0A]
           @ ''X-Online-Host: '' @ Host r @ [CHR 0x0D, CHR 0x0A]
      else [])"

text \<open>\<open>DialRAW\<close> returns the named results \<open>conn\<close> and \<open>err\<close>: the pointer \<open>conn\<close> was
  set when the connection was built and no path clears it, so both are returned on
  every path. \<open>buildHTTPRequest\<close> is declared outside raw\_other.go and is an
  argument.\<close>

definition DialRAW ::
  "Raw \<Rightarrow> Ethernet option \<Rightarrow> UDPAddr \<Rightarrow> UDPAddr \<Rightarrow> (string \<Rightarrow> bytes) \<Rightarrow>
   (nat \<Rightarrow> error option) \<Rightarrow> (nat \<Rightarrow> 16 word) \<Rightarrow> (nat \<Rightarrow> 32 word) \<Rightarrow> rd_event list \<Rightarrow>
   ((RAWConn option \<times> error option) \<times> rd_event list) option" where
  "DialRAW r e local remote buildHTTPRequest outc rid rseq evs =
     (case dial_handshake 0 (newRAWConn r e local remote outc rid rseq) evs of
        None \<Rightarrow> None
      | Some (Some err, _, c, rest) \<Rightarrow> Some ((Some (dial_deferred (Some err) c), Some err), rest)
      | Some (None, saved, c, rest) \<Rightarrow>
          if NoHTTP r then Some ((Some (dial_deferred None c), None), rest)
          else
            (case dial_http 0 (buildHTTPRequest (buildHeaders r)) saved c rest of
               None \<Rightarrow> None
             | Some (err, c', rest') \<Rightarrow> Some ((Some (dial_deferred err c'), err), rest')))"

section \<open>Listening\<close>

text \<open>Modelled from the spec: the constants \<open>synreceived\<close>, \<open>waithttpreq\<close>,
  \<open>httprepsent\<close> and \<open>established\<close> are declared outside raw\_other.go; the spec
  lists them as the four states of a flow, and the file stores no other value.\<close>

datatype conn_state = synreceived | waithttpreq | httprepsent | established

text \<open>\<open>connInfo\<close>. The maps of the listener hold pointers to records that nothing
  else points to, so a record is a value of the map and an assignment through the
  pointer is an update of the map; \<open>c_layer\<close> is the pointer to the template, which
  \<open>listener.layer\<close> aliases during a send. \<open>c_rep = None\<close> is the nil slice.\<close>

record connInfo =
  c_state :: conn_state
  c_layer :: nat
  c_rep :: "bytes option"
  c_hseqn :: "32 word"
  c_mss :: int

text \<open>\<open>RAWListener\<close> embeds \<open>RAWConn\<close>: the methods above apply to it as they are. The
  two tables are keyed by \<open>addr.String()\<close>. The table mutex \<open>myMutex\<close> is declared
  outside raw\_other.go; \<open>mutex.run f\<close> is taken to call \<open>f\<close>.\<close>

record RAWListener = RAWConn +
  newcons :: "string \<Rightarrow> connInfo option"
  conns :: "string \<Rightarrow> connInfo option"
  laddr :: IP
  lport :: nat

definition GetMSSByAddr :: "RAWListener \<Rightarrow> string \<Rightarrow> int" where
  "GetMSSByAddr listener addr =
     (case conns listener addr of
        Some info \<Rightarrow> if c_mss info > 0 then c_mss info else 0
      | None \<Rightarrow> 0)"

definition closeConn :: "RAWListener \<Rightarrow> connInfo \<Rightarrow> error option \<times> RAWListener" where
  "closeConn listener info = sendFin (listener\<lparr>layer := Some (c_layer info)\<rparr>)"

definition closeConnByAddr :: "RAWListener \<Rightarrow> string \<Rightarrow> error option \<times> RAWListener" where
  "closeConnByAddr listener addrstr =
     (case newcons listener addrstr of
        Some info \<Rightarrow> closeConn (listener\<lparr>newcons := (newcons listener)(addrstr := None)\<rparr>) info
      | None \<Rightarrow>
        (case conns listener addrstr of
           Some info \<Rightarrow> closeConn (listener\<lparr>conns := (conns listener)(addrstr := None)\<rparr>) info
         | None \<Rightarrow> (None, listener)))"

text \<open>\<open>RAWListener.WriteTo\<close>, with the address given by its \<open>String()\<close>.\<close>

definition WriteTo :: "RAWListener \<Rightarrow> bytes \<Rightarrow> string \<Rightarrow> (nat \<times> error option) \<times> RAWListener" where
  "WriteTo listener b addr =
     (case conns listener addr of
        None \<Rightarrow> ((0, Some (ErrMsg (''cannot write to '' @ addr))), listener)
      | Some info \<Rightarrow> Write (listener\<lparr>layer := Some (c_layer info)\<rparr>) b)"

text \<open>The template that \<open>RAWListener.ReadFrom\<close> builds for a packet of a peer it does
  not know, stored at the next free address.\<close>

definition reply_layer :: "RAWListener \<Rightarrow> pktLayers \<Rightarrow> pktLayers" where
  "reply_layer listener cl =
     \<lparr>eth = (case eth cl of None \<Rightarrow> None
             | Some e \<Rightarrow> Some \<lparr>SrcMAC = DstMAC e, DstMAC = SrcMAC e,
                               EthernetType = EthernetType e\<rparr>),
      ip4 = \<lparr>SrcIP = DstIP (ip4 cl), DstIP = SrcIP (ip4 cl), Protocol = 6, Version = 4,
             IPId = randId listener (nextp listener), Flags = 2, TTL = 0x40,
             TOS = of_int (DSCP (r_raw listener))\<rparr>,
      tcp = \<lparr>SrcPort = DstPort (tcp cl), DstPort = SrcPort (tcp cl),
             Seq = 0, Ack = Seq (tcp cl) + 1,
             FIN = False, SYN = False, RST = False, PSH = False, ACK = False,
             URG = False, ECE = False, CWR = False, NS = False,
             Window = 32760, Options = [], Padding = [], Payload = []\<rparr>\<rparr>"

definition is_POST :: "bytes \<Rightarrow> bool" where
  "is_POST pl = (take 4 pl = ''POST'' \<and> drop (length pl - 4) pl = CRLFCRLF)"

text \<open>An assignment through \<open>info.layer.tcp\<close>.\<close>

definition set_info_tcp :: "(TCP \<Rightarrow> TCP) \<Rightarrow> connInfo \<Rightarrow> RAWListener \<Rightarrow> RAWListener" where
  "set_info_tcp f info listener =
     (case heap listener (c_layer info) of None \<Rightarrow> listener
      | Some l \<Rightarrow> listener\<lparr>heap := (heap listener)(c_layer info \<mapsto> l\<lparr>tcp := f (tcp l)\<rparr>)\<rparr>)"

definition rd_error :: "nat \<Rightarrow> UDPAddr \<Rightarrow> error \<Rightarrow> bytes \<Rightarrow> read_result" where
  "rd_error n a e b = \<lparr>n_of = n, addr_of = Some a, err_of = Some e, buf_of = b\<rparr>"

text \<open>The part of the loop body for a peer found in \<open>conns\<close> whose packet carries a
  payload of \<open>n > 0\<close> bytes.\<close>

definition listen_conns ::
  "RAWListener \<Rightarrow> bytes \<Rightarrow> pktLayers \<Rightarrow> UDPAddr \<Rightarrow> connInfo \<Rightarrow> read_result option \<times> RAWListener" where
  "listen_conns l0 b cl a info =
     (let t = tcp cl; n = length (Payload t); addrstr = UDPAddr_String a in
      case heap l0 (c_layer info) of
        None \<Rightarrow> (Some (rd_error n a nil_deref b), l0)
      | Some tmpl \<Rightarrow>
        (let l1 = (if unat (Seq t) + n > unat (Ack (tcp tmpl))
                   then set_info_tcp (\<lambda>x. x\<lparr>Ack := Seq t + of_nat n\<rparr>) info l0 else l0);
             (res, info2, l2) =
               (if c_state info = httprepsent then
                  (if PSH t \<and> ACK t then
                     (if Seq t = c_hseqn info \<and> n > 20 then
                        (if is_POST (Payload t) then
                           (let l1a = set_info_tcp (\<lambda>x. x\<lparr>Ack := Seq t + of_nat n,
                                         Seq := Seq x + of_nat (length (case c_rep info of None \<Rightarrow> [] | Some rp \<Rightarrow> rp))\<rparr>) info l1;
                                ((_, err), l1b) = write_seg (l1a\<lparr>layer := Some (c_layer info)\<rparr>)
                                                    (case c_rep info of None \<Rightarrow> [] | Some rp \<Rightarrow> rp)
                            in (case err of Some e \<Rightarrow> Some (rd_error n a e b) | None \<Rightarrow> None, info, l1b))
                         else (None, info, l1))
                      else (None, info\<lparr>c_rep := None, c_state := established\<rparr>, l1))
                   else (None, info, l1))
                else (None, info, l1));
             l3 = l2\<lparr>conns := (conns l2)(addrstr \<mapsto> info2)\<rparr>
         in case res of
              Some r \<Rightarrow> (Some r, l3)
            | None \<Rightarrow>
              if c_state info2 = established then
                (let (m, b') = copy_into b (Payload t)
                 in (Some \<lparr>n_of = m, addr_of = Some a, err_of = None, buf_of = b'\<rparr>, l3))
              else (None, l3)))"

text \<open>The part for a peer found in \<open>newcons\<close>; \<open>rep0\<close> is what
  \<open>buildHTTPResponse("")\<close> returns (the function is declared outside
  raw\_other.go).\<close>

definition listen_newcons ::
  "bytes \<Rightarrow> RAWListener \<Rightarrow> bytes \<Rightarrow> pktLayers \<Rightarrow> UDPAddr \<Rightarrow> connInfo \<Rightarrow> read_result option \<times> RAWListener" where
  "listen_newcons rep0 l0 b cl a info =
     (let t = tcp cl; n = length (Payload t); addrstr = UDPAddr_String a in
      if c_state info = synreceived then
        (if ACK t \<and> \<not> PSH t \<and> \<not> FIN t \<and> \<not> SYN t then
           (case heap l0 (c_layer info) of
              None \<Rightarrow> (Some (rd_error n a nil_deref b), l0)
            | Some _ \<Rightarrow>
              (let l1 = set_info_tcp (\<lambda>x. x\<lparr>Seq := Seq x + 1\<rparr>) info l0 in
               if NoHTTP (r_raw l0)
               then (None, l1\<lparr>conns := (conns l1)(addrstr \<mapsto> info\<lparr>c_state := established\<rparr>),
                               newcons := (newcons l1)(addrstr := None)\<rparr>)
               else (None, l1\<lparr>newcons := (newcons l1)(addrstr \<mapsto> info\<lparr>c_state := waithttpreq\<rparr>)\<rparr>)))
         else if SYN t \<and> \<not> ACK t \<and> \<not> PSH t then
           (case sendSynAck (l0\<lparr>layer := Some (c_layer info)\<rparr>) of
              (Some e, l1) \<Rightarrow> (Some (rd_error n a e b), l1)
            | (None, l1) \<Rightarrow> (None, l1))
         else (None, l0))
      else if c_state info = waithttpreq then
        (if PSH t \<and> ACK t \<and> n > 20 then
           (if is_POST (Payload t) then
              (case heap l0 (c_layer info) of
                 None \<Rightarrow> (Some (rd_error n a nil_deref b), l0)
               | Some _ \<Rightarrow>
                 (let l1 = set_info_tcp (\<lambda>x. x\<lparr>Ack := Ack x + of_nat n\<rparr>) info l0;
                      rp = (case c_rep info of None \<Rightarrow> rep0 | Some x \<Rightarrow> x);
                      info1 = info\<lparr>c_rep := Some rp, c_hseqn := Seq t\<rparr>;
                      ((_, err), l2) = write_seg (l1\<lparr>layer := Some (c_layer info)\<rparr>) rp
                  in case err of
                       Some e \<Rightarrow> (Some (rd_error n a e b),
                                  l2\<lparr>newcons := (newcons l2)(addrstr \<mapsto> info1)\<rparr>)
                     | None \<Rightarrow> (None,
                                l2\<lparr>conns := (conns l2)(addrstr \<mapsto> info1\<lparr>c_state := httprepsent\<rparr>),
                                   newcons := (newcons l2)(addrstr := None)\<rparr>)))
            else (None, l0))
         else if SYN t \<and> \<not> ACK t \<and> \<not> PSH t then
           (case sendSynAck (l0\<lparr>layer := Some (c_layer info)\<rparr>) of
              (Some e, l1) \<Rightarrow> (Some (rd_error n a e b), l1)
            | (None, l1) \<Rightarrow> (None, l1))
         else (None, l0))
      else (None, l0))"

text \<open>The part for a peer in neither table.\<close>

definition listen_unknown ::
  "RAWListener \<Rightarrow> bytes \<Rightarrow> pktLayers \<Rightarrow> UDPAddr \<Rightarrow> read_result option \<times> RAWListener" where
  "listen_unknown l0 b cl a =
     (let t = tcp cl; n = length (Payload t); addrstr = UDPAddr_String a;
          p = nextp l0;
          l1 = l0\<lparr>heap := (heap l0)(p \<mapsto> reply_layer l0 cl), nextp := p + 1\<rparr>
      in if SYN t \<and> \<not> ACK t \<and> \<not> PSH t \<and> \<not> FIN t then
           (case getMssFromTcpLayer t of
              Inl e \<Rightarrow> (Some (rd_error n a e b), l1)
            | Inr m \<Rightarrow>
              (let info = \<lparr>c_state = synreceived, c_layer = p, c_rep = None, c_hseqn = 0, c_mss = m\<rparr>;
                   l2 = set_info_tcp (\<lambda>x. x\<lparr>Seq := randSeq l1 p\<rparr>) info l1
               in case sendSynAck (l2\<lparr>layer := Some p\<rparr>) of
                    (Some e, l3) \<Rightarrow> (Some (rd_error n a e b), l3)
                  | (None, l3) \<Rightarrow> (None, l3\<lparr>newcons := (newcons l3)(addrstr \<mapsto> info)\<rparr>)))
         else (None, snd (sendFin (l1\<lparr>layer := Some p\<rparr>))))"

text \<open>The body of the loop of \<open>RAWListener.ReadFrom\<close> for one packet that
  \<open>readLayers\<close> returned. The named results \<open>n\<close> and \<open>addr\<close> keep their values
  from one iteration to the next: the body takes \<open>n\<close> and gives it back, and always
  sets \<open>addr\<close> to the source of the packet; \<open>None\<close> is \<open>continue\<close>.\<close>

definition listen_body ::
  "bytes \<Rightarrow> RAWListener \<Rightarrow> bytes \<Rightarrow> nat \<Rightarrow> pktLayers \<Rightarrow> read_result option \<times> nat \<times> RAWListener" where
  "listen_body rep0 listener b n0 cl =
     (let t = tcp cl;
          l0 = listener\<lparr>layer := None\<rparr>;
          a = \<lparr>IP_of = SrcIP (ip4 cl), Port = unat (SrcPort t)\<rparr>;
          addrstr = UDPAddr_String a
      in if RST t \<or> FIN t then
           (case closeConnByAddr l0 addrstr of
              (Some e, l1) \<Rightarrow> (Some (rd_error n0 a e b), n0, l1)
            | (None, l1) \<Rightarrow> (None, n0, l1))
         else
           (let n = length (Payload t) in
            case conns l0 addrstr of
              Some info \<Rightarrow>
                if n \<noteq> 0 then (case listen_conns l0 b cl a info of (res, l1) \<Rightarrow> (res, n, l1))
                else if ACK t \<and> PSH t
                     then (Some \<lparr>n_of = n, addr_of = Some a, err_of = None, buf_of = b\<rparr>, n, l0)
                     else (None, n, l0)
            | None \<Rightarrow>
              (case newcons l0 addrstr of
                 Some info \<Rightarrow> (case listen_newcons rep0 l0 b cl a info of (res, l1) \<Rightarrow> (res, n, l1))
               | None \<Rightarrow> (case listen_unknown l0 b cl a of (res, l1) \<Rightarrow> (res, n, l1)))))"

function listen_loop ::
  "bytes \<Rightarrow> RAWListener \<Rightarrow> bytes \<Rightarrow> nat \<Rightarrow> UDPAddr option \<Rightarrow> rd_event list \<Rightarrow>
   (read_result \<times> RAWListener \<times> rd_event list) option" where
  "listen_loop rep0 listener b n0 a0 evs =
     (case readLayers listener evs of
        None \<Rightarrow> None
      | Some (Inl e, rest) \<Rightarrow>
          Some (\<lparr>n_of = n0, addr_of = a0, err_of = Some e, buf_of = b\<rparr>, listener, rest)
      | Some (Inr cl, rest) \<Rightarrow>
          (case listen_body rep0 listener b n0 cl of
             (Some res, _, l1) \<Rightarrow> Some (res, l1, rest)
           | (None, n1, l1) \<Rightarrow>
               listen_loop rep0 l1 b n1
                 (Some \<lparr>IP_of = SrcIP (ip4 cl), Port = unat (SrcPort (tcp cl))\<rparr>) rest))"
  by pat_completeness auto
termination
  by (relation "measure (\<lambda>(rep0, listener, b, n0, a0, evs). length evs)")
     (auto dest: readLayers_shorter)

text \<open>\<open>RAWListener.ReadFrom\<close>: the named results \<open>n\<close> and \<open>addr\<close> start as 0 and
  nil.\<close>

definition Listener_ReadFrom ::
  "bytes \<Rightarrow> RAWListener \<Rightarrow> bytes \<Rightarrow> rd_event list \<Rightarrow>
   (read_result \<times> RAWListener \<times> rd_event list) option" where
  "Listener_ReadFrom rep0 listener b evs = listen_loop rep0 listener b 0 None evs"

section \<open>Notions used to state the properties\<close>

text \<open>The control flags of a TCP header, as a set.\<close>

datatype tcp_flag = F_FIN | F_SYN | F_RST | F_PSH | F_ACK | F_URG | F_ECE | F_CWR | F_NS

definition flags_of :: "TCP \<Rightarrow> tcp_flag set" where
  "flags_of t =
     (if FIN t then {F_FIN} else {}) \<union> (if SYN t then {F_SYN} else {}) \<union>
     (if RST t then {F_RST} else {}) \<union> (if PSH t then {F_PSH} else {}) \<union>
     (if ACK t then {F_ACK} else {}) \<union> (if URG t then {F_URG} else {}) \<union>
     (if ECE t then {F_ECE} else {}) \<union> (if CWR t then {F_CWR} else {}) \<union>
     (if NS t then {F_NS} else {})"

text \<open>The flags that \<open>updateTCP\<close> does not write. No statement of the file sets
  them: they are as the template was built.\<close>

definition unwritten_clear :: "TCP \<Rightarrow> bool" where
  "unwritten_clear t = (\<not> URG t \<and> \<not> ECE t \<and> \<not> CWR t \<and> \<not> NS t)"

text \<open>The six functions that call \<open>sendPacket\<close>, and the flags each asserts.\<close>

datatype helper = Syn | SynAck | AckOnly | Data bytes | Fin | Rst

fun run_helper :: "helper \<Rightarrow> 'a RAWConn_scheme \<Rightarrow> error option \<times> 'a RAWConn_scheme" where
  "run_helper Syn conn = sendSyn conn"
| "run_helper SynAck conn = sendSynAck conn"
| "run_helper AckOnly conn = sendAck conn"
| "run_helper (Data b) conn = (case write_seg conn b of ((n, err), c) \<Rightarrow> (err, c))"
| "run_helper Fin conn = sendFin conn"
| "run_helper Rst conn = sendRst conn"

fun helper_flags :: "helper \<Rightarrow> tcp_flag set" where
  "helper_flags Syn = {F_SYN}"
| "helper_flags SynAck = {F_SYN, F_ACK}"
| "helper_flags AckOnly = {F_ACK}"
| "helper_flags (Data b) = {F_PSH, F_ACK}"
| "helper_flags Fin = {F_FIN}"
| "helper_flags Rst = {F_RST}"

text \<open>The state after a call of a helper on the template \<open>l\<close> at \<open>p\<close>: \<open>sent\<close> is
  the TCP header that was serialised, \<open>kept\<close> the one left in the template.\<close>

definition sent_ip :: "pktLayers \<Rightarrow> IPv4hdr" where
  "sent_ip l = (ip4 l)\<lparr>IPId := IPId (ip4 l) + 1\<rparr>"

definition cleared :: "TCP \<Rightarrow> TCP" where
  "cleared t = t\<lparr>Padding := [], FIN := False, PSH := False, ACK := False, RST := False, SYN := False\<rparr>"

definition emitted :: "error option \<Rightarrow> pktLayers \<Rightarrow> event list" where
  "emitted err seg = (case err of None \<Rightarrow> [Injected seg] | Some _ \<Rightarrow> [])"

definition after_send ::
  "'a RAWConn_scheme \<Rightarrow> nat \<Rightarrow> pktLayers \<Rightarrow> TCP \<Rightarrow> TCP \<Rightarrow> 'a RAWConn_scheme" where
  "after_send conn p l sent kept =
     conn\<lparr>heap := (heap conn)(p \<mapsto> \<lparr>eth = eth l, ip4 = sent_ip l, tcp = kept\<rparr>),
          sends := sends conn + 1,
          trace := trace conn @ emitted (inject conn (sends conn)) \<lparr>eth = eth l, ip4 = sent_ip l, tcp = sent\<rparr>\<rparr>"

fun sent_tcp :: "helper \<Rightarrow> TCP \<Rightarrow> TCP" where
  "sent_tcp Syn t = (cleared t)\<lparr>SYN := True, Options := Options t @ syn_options\<rparr>"
| "sent_tcp SynAck t = (cleared t)\<lparr>SYN := True, ACK := True, Options := Options t @ syn_options\<rparr>"
| "sent_tcp AckOnly t = (cleared t)\<lparr>ACK := True\<rparr>"
| "sent_tcp (Data b) t = (cleared t)\<lparr>PSH := True, ACK := True, Payload := b\<rparr>"
| "sent_tcp Fin t = (cleared t)\<lparr>FIN := True\<rparr>"
| "sent_tcp Rst t = (cleared t)\<lparr>RST := True\<rparr>"

fun kept_tcp :: "helper \<Rightarrow> TCP \<Rightarrow> TCP" where
  "kept_tcp Syn t = (cleared t)\<lparr>SYN := True\<rparr>"
| "kept_tcp SynAck t = (cleared t)\<lparr>SYN := True, ACK := True\<rparr>"
| "kept_tcp AckOnly t = (cleared t)\<lparr>ACK := True\<rparr>"
| "kept_tcp (Data b) t = (cleared t)\<lparr>PSH := True, ACK := True, Payload := []\<rparr>"
| "kept_tcp Fin t = (cleared t)\<lparr>FIN := True\<rparr>"
| "kept_tcp Rst t = (cleared t)\<lparr>RST := True\<rparr>"

text \<open>The sequence and acknowledgement numbers of the template at an address, and
  those left by a read that returned.\<close>

definition tmpl_seq :: "'a RAWConn_scheme \<Rightarrow> nat \<Rightarrow> 32 word option" where
  "tmpl_seq conn p = (case heap conn p of None \<Rightarrow> None | Some l \<Rightarrow> Some (Seq (tcp l)))"

definition tmpl_ack :: "'a RAWConn_scheme \<Rightarrow> nat \<Rightarrow> 32 word option" where
  "tmpl_ack conn p = (case heap conn p of None \<Rightarrow> None | Some l \<Rightarrow> Some (Ack (tcp l)))"

definition ack_after ::
  "(read_result \<times> 'a RAWConn_scheme \<times> rd_event list) option \<Rightarrow> nat \<Rightarrow> 32 word option" where
  "ack_after ret p = (case ret of None \<Rightarrow> None | Some (res, c, rest) \<Rightarrow> tmpl_ack c p)"

definition result_of ::
  "(read_result \<times> 'a RAWConn_scheme \<times> rd_event list) option \<Rightarrow> read_result option" where
  "result_of ret = (case ret of None \<Rightarrow> None | Some (res, c, rest) \<Rightarrow> Some res)"


text \<open>The number of segments with SYN set that a connection has put on the wire;
  one round of the handshake loop of \<open>DialRAW\<close> that sends its SYN and then runs
  into the read deadline; and the two results of \<open>DialRAW\<close>.\<close>

definition count_syn :: "'a RAWConn_scheme \<Rightarrow> nat" where
  "count_syn conn = length (filter (\<lambda>s. SYN (tcp s)) (wire (trace conn)))"

definition syn_timeout :: "RAWConn \<Rightarrow> RAWConn" where
  "syn_timeout conn = (snd (sendSyn conn))\<lparr>rtimer := True\<rparr>"

definition returned_conn ::
  "((RAWConn option \<times> error option) \<times> rd_event list) option \<Rightarrow> RAWConn option" where
  "returned_conn ret = (case ret of None \<Rightarrow> None | Some ((c, err), rest) \<Rightarrow> c)"

definition returned_err ::
  "((RAWConn option \<times> error option) \<times> rd_event list) option \<Rightarrow> error option" where
  "returned_err ret = (case ret of None \<Rightarrow> None | Some ((c, err), rest) \<Rightarrow> err)"

text \<open>Concrete values on which the theorems below are exercised.\<close>

definition send_ok :: "nat \<Rightarrow> error option" where
  "send_ok k = None"

definition send_fails :: "nat \<Rightarrow> error option" where
  "send_fails k = Some (IOErr ''send failed'')"

definition ex_raw :: Raw where
  "ex_raw = \<lparr>NoHTTP = False, IgnRST = False, DSCP = 0, Host = []\<rparr>"

definition ex_conn :: "(nat \<Rightarrow> error option) \<Rightarrow> RAWConn" where
  "ex_conn outc = newRAWConn ex_raw None \<lparr>IP_of = IPv4 10 0 0 1, Port = 4000\<rparr>
                    \<lparr>IP_of = IPv4 10 0 0 2, Port = 80\<rparr> outc (\<lambda>_. 7) (\<lambda>_. 1000)"

text \<open>A dialled connection after its handshake: the peer's data is acknowledged up
  to 1001 and the HTTP response had the sequence number 7777.\<close>

definition ex_dialled :: RAWConn where
  "ex_dialled = (set_tcp (\<lambda>t. t\<lparr>Ack := 1001\<rparr>) (ex_conn send_ok))\<lparr>hseqn := 7777\<rparr>"

definition ex_template :: pktLayers where
  "ex_template =
     \<lparr>eth = None,
      ip4 = \<lparr>SrcIP = IPv4 10 0 0 2, DstIP = IPv4 10 0 0 1, Protocol = 6, Version = 4,
             IPId = 7, Flags = 2, TTL = 0x40, TOS = 0\<rparr>,
      tcp = \<lparr>SrcPort = 80, DstPort = 4000, Seq = 5000, Ack = 1001,
             FIN = False, SYN = False, RST = False, PSH = False, ACK = False,
             URG = False, ECE = False, CWR = False, NS = False,
             Window = 32760, Options = [], Padding = [], Payload = []\<rparr>\<rparr>"

text \<open>A listener with one template at address 0 and the given tables.\<close>

definition ex_listener ::
  "(nat \<Rightarrow> error option) \<Rightarrow> (string \<Rightarrow> connInfo option) \<Rightarrow> (string \<Rightarrow> connInfo option) \<Rightarrow> RAWListener" where
  "ex_listener outc nc cs =
     \<lparr>udp = False, handle = True, layer = None, rtimer = False, closed = False,
      hseqn = 0, mss = 0, r_raw = ex_raw, heap = [0 \<mapsto> ex_template], nextp = 1,
      trace = [], sends = 0, inject = outc, randId = (\<lambda>_. 7), randSeq = (\<lambda>_. 1000),
      newcons = nc, conns = cs, laddr = IPv4 10 0 0 2, lport = 80\<rparr>"

definition ex_info :: "conn_state \<Rightarrow> connInfo" where
  "ex_info st = \<lparr>c_state = st, c_layer = 0, c_rep = None, c_hseqn = 0, c_mss = 1460\<rparr>"

text \<open>A data segment (PSH+ACK) with the given ports, sequence number and payload,
  and the loopback packets that carry a TCP header from the peer \<open>10.0.0.1:4000\<close>
  to the listener and from the server \<open>10.0.0.2:80\<close> to the dialler.\<close>

definition data_seg :: "16 word \<Rightarrow> 16 word \<Rightarrow> 32 word \<Rightarrow> bytes \<Rightarrow> TCP" where
  "data_seg sp dp sq pl =
     \<lparr>SrcPort = sp, DstPort = dp, Seq = sq, Ack = 0,
      FIN = False, SYN = False, RST = False, PSH = True, ACK = True,
      URG = False, ECE = False, CWR = False, NS = False,
      Window = 1024, Options = [], Padding = [], Payload = pl\<rparr>"

text \<open>A SYN with the given options.\<close>

definition syn_seg :: "16 word \<Rightarrow> 16 word \<Rightarrow> 32 word \<Rightarrow> TCPOption list \<Rightarrow> TCP" where
  "syn_seg sp dp sq opts =
     \<lparr>SrcPort = sp, DstPort = dp, Seq = sq, Ack = 0,
      FIN = False, SYN = True, RST = False, PSH = False, ACK = False,
      URG = False, ECE = False, CWR = False, NS = False,
      Window = 1024, Options = opts, Padding = [], Payload = []\<rparr>"

definition mss_1400 :: TCPOption where
  "mss_1400 = \<lparr>OptionType = 2, OptionLength = 4, OptionData = [char_of (0x05::nat), char_of (0x78::nat)]\<rparr>"

text \<open>A request of exactly 20 bytes and one of 21 bytes, both starting with \<open>POST\<close>
  and ending with two CRLF pairs, and a decoy response.\<close>

definition post20 :: bytes where
  "post20 = ''POST /index.html'' @ CRLFCRLF"

definition post21 :: bytes where
  "post21 = ''POST /index2.html'' @ CRLFCRLF"

definition http_rep :: bytes where
  "http_rep = ''HTTP/1.1 200 OK'' @ CRLFCRLF"

text \<open>The layers \<open>readLayers\<close> returns for a loopback packet of the peer
  \<open>10.0.0.1:4000\<close> with the TCP header \<open>t\<close>.\<close>

definition peer_layers :: "TCP \<Rightarrow> pktLayers" where
  "peer_layers t =
     \<lparr>eth = None,
      ip4 = \<lparr>SrcIP = IPv4 10 0 0 1, DstIP = IPv4 10 0 0 2, Protocol = 6, Version = 4,
             IPId = 1, Flags = 2, TTL = 0x40, TOS = 0\<rparr>,
      tcp = t\<rparr>"

definition from_peer :: "TCP \<Rightarrow> packet" where
  "from_peer t =
     \<lparr>ethLayer = None, loopLayer = True,
      ipLayer = Some \<lparr>SrcIP = IPv4 10 0 0 1, DstIP = IPv4 10 0 0 2, Protocol = 6, Version = 4,
                      IPId = 1, Flags = 2, TTL = 0x40, TOS = 0\<rparr>,
      tcpLayer = Some t\<rparr>"

definition from_server :: "TCP \<Rightarrow> packet" where
  "from_server t =
     \<lparr>ethLayer = None, loopLayer = True,
      ipLayer = Some \<lparr>SrcIP = IPv4 10 0 0 2, DstIP = IPv4 10 0 0 1, Protocol = 6, Version = 4,
                      IPId = 1, Flags = 2, TTL = 0x40, TOS = 0\<rparr>,
      tcpLayer = Some t\<rparr>"

definition ex_request :: "string \<Rightarrow> bytes" where
  "ex_request headers = ''POST / HTTP/1.1'' @ [CHR 0x0D, CHR 0x0A] @ headers @ [CHR 0x0D, CHR 0x0A]"

definition ex_dial ::
  "(nat \<Rightarrow> error option) \<Rightarrow> rd_event list \<Rightarrow> ((RAWConn option \<times> error option) \<times> rd_event list) option" where
  "ex_dial outc evs =
     DialRAW ex_raw None \<lparr>IP_of = IPv4 10 0 0 1, Port = 4000\<rparr> \<lparr>IP_of = IPv4 10 0 0 2, Port = 80\<rparr>
       ex_request outc (\<lambda>_. 7) (\<lambda>_. 1000) evs"

section \<open>The send helpers, in closed form\<close>

lemma pkt_tcp_upd: "l\<lparr>tcp := a\<rparr> = \<lparr>eth = eth l, ip4 = ip4 l, tcp = a\<rparr>"
  by (cases l) simp

lemma pkt_ip4_upd: "l\<lparr>ip4 := a\<rparr> = \<lparr>eth = eth l, ip4 = a, tcp = tcp l\<rparr>"
  by (cases l) simp

lemma deref_Some: "deref conn = Some (p, l) \<longleftrightarrow> layer conn = Some p \<and> heap conn p = Some l"
  by (auto simp: deref_def split: option.splits)

lemma set_tcp_eq:
  "deref conn = Some (p, l) \<Longrightarrow>
   set_tcp f conn = conn\<lparr>heap := (heap conn)(p \<mapsto> \<lparr>eth = eth l, ip4 = ip4 l, tcp = f (tcp l)\<rparr>)\<rparr>"
  by (simp add: set_tcp_def pkt_tcp_upd)

lemma set_ip4_eq:
  "deref conn = Some (p, l) \<Longrightarrow>
   set_ip4 f conn = conn\<lparr>heap := (heap conn)(p \<mapsto> \<lparr>eth = eth l, ip4 = f (ip4 l), tcp = tcp l\<rparr>)\<rparr>"
  by (simp add: set_ip4_def pkt_ip4_upd)

lemma deref_heap_upd:
  "layer conn = Some p \<Longrightarrow> deref (conn\<lparr>heap := (heap conn)(p \<mapsto> l')\<rparr>) = Some (p, l')"
  by (simp add: deref_def)

lemma sendPacket_eq:
  assumes "deref conn = Some (p, l)"
  shows "sendPacket conn = (inject conn (sends conn), after_send conn p l (tcp l) (tcp l))"
proof -
  from assms have lp: "layer conn = Some p" by (simp add: deref_Some)
  let ?l' = "\<lparr>eth = eth l, ip4 = sent_ip l, tcp = tcp l\<rparr>"
  have c1: "set_ip4 (\<lambda>h. h\<lparr>IPId := IPId h + 1\<rparr>) conn = conn\<lparr>heap := (heap conn)(p \<mapsto> ?l')\<rparr>"
    by (simp add: set_ip4_eq [OF assms] sent_ip_def)
  have d2: "deref (conn\<lparr>heap := (heap conn)(p \<mapsto> ?l'), sends := Suc (sends conn)\<rparr>) = Some (p, ?l')"
    using lp by (simp add: deref_def)
  show ?thesis
    by (cases "inject conn (sends conn)")
       (simp_all add: sendPacket_def assms c1 d2 after_send_def emitted_def Let_def)
qed

text \<open>A send right after the TCP header of the template was overwritten with \<open>t\<close>.\<close>

lemma sendPacket_tcp:
  assumes "deref conn = Some (p, l)"
  shows "sendPacket (conn\<lparr>heap := (heap conn)(p \<mapsto> \<lparr>eth = eth l, ip4 = ip4 l, tcp = t\<rparr>)\<rparr>)
         = (inject conn (sends conn), after_send conn p l t t)"
proof -
  from assms have lp: "layer conn = Some p" by (simp add: deref_Some)
  have "deref (conn\<lparr>heap := (heap conn)(p \<mapsto> \<lparr>eth = eth l, ip4 = ip4 l, tcp = t\<rparr>)\<rparr>)
        = Some (p, \<lparr>eth = eth l, ip4 = ip4 l, tcp = t\<rparr>)"
    using lp by (rule deref_heap_upd)
  from sendPacket_eq [OF this] show ?thesis
    by (simp add: after_send_def sent_ip_def)
qed

lemma deref_after_send:
  "layer conn = Some p \<Longrightarrow>
   deref (after_send conn p l s k) = Some (p, \<lparr>eth = eth l, ip4 = sent_ip l, tcp = k\<rparr>)"
  by (simp add: after_send_def deref_def)

lemma set_tcp_after_send:
  "layer conn = Some p \<Longrightarrow> set_tcp f (after_send conn p l s k) = after_send conn p l s (f k)"
  by (simp add: set_tcp_eq [OF deref_after_send]) (simp add: after_send_def)

lemma updateTCP_eq:
  "deref conn = Some (p, l) \<Longrightarrow>
   updateTCP conn = Some (conn\<lparr>heap := (heap conn)(p \<mapsto> \<lparr>eth = eth l, ip4 = ip4 l, tcp = cleared (tcp l)\<rparr>)\<rparr>)"
  by (simp add: updateTCP_def set_tcp_eq cleared_def)

lemma set_tcp_heap_upd:
  "layer conn = Some p \<Longrightarrow>
   set_tcp f (conn\<lparr>heap := (heap conn)(p \<mapsto> \<lparr>eth = e, ip4 = i, tcp = t\<rparr>)\<rparr>)
   = conn\<lparr>heap := (heap conn)(p \<mapsto> \<lparr>eth = e, ip4 = i, tcp = f t\<rparr>)\<rparr>"
  by (simp add: set_tcp_eq [OF deref_heap_upd])

lemma sendAck_eq:
  assumes "deref conn = Some (p, l)"
  shows "sendAck conn = (inject conn (sends conn),
      after_send conn p l ((cleared (tcp l))\<lparr>ACK := True\<rparr>) ((cleared (tcp l))\<lparr>ACK := True\<rparr>))"
proof -
  from assms have lp: "layer conn = Some p" by (simp add: deref_Some)
  show ?thesis
    by (simp add: sendAck_def updateTCP_eq [OF assms] set_tcp_heap_upd [OF lp] sendPacket_tcp [OF assms])
qed

lemma sendFin_eq:
  assumes "deref conn = Some (p, l)"
  shows "sendFin conn = (inject conn (sends conn),
      after_send conn p l ((cleared (tcp l))\<lparr>FIN := True\<rparr>) ((cleared (tcp l))\<lparr>FIN := True\<rparr>))"
proof -
  from assms have lp: "layer conn = Some p" by (simp add: deref_Some)
  show ?thesis
    by (simp add: sendFin_def updateTCP_eq [OF assms] set_tcp_heap_upd [OF lp] sendPacket_tcp [OF assms])
qed

lemma sendRst_eq:
  assumes "deref conn = Some (p, l)"
  shows "sendRst conn = (inject conn (sends conn),
      after_send conn p l ((cleared (tcp l))\<lparr>RST := True\<rparr>) ((cleared (tcp l))\<lparr>RST := True\<rparr>))"
proof -
  from assms have lp: "layer conn = Some p" by (simp add: deref_Some)
  show ?thesis
    by (simp add: sendRst_def updateTCP_eq [OF assms] set_tcp_heap_upd [OF lp] sendPacket_tcp [OF assms])
qed

lemma write_seg_eq:
  assumes "deref conn = Some (p, l)"
  shows "write_seg conn b = ((length b, inject conn (sends conn)),
      after_send conn p l ((cleared (tcp l))\<lparr>PSH := True, ACK := True, Payload := b\<rparr>)
                          ((cleared (tcp l))\<lparr>PSH := True, ACK := True, Payload := []\<rparr>))"
proof -
  from assms have lp: "layer conn = Some p" by (simp add: deref_Some)
  show ?thesis
    by (simp add: write_seg_def updateTCP_eq [OF assms] set_tcp_heap_upd [OF lp]
          sendPacket_tcp [OF assms] set_tcp_after_send [OF lp])
qed

lemma sendSyn_eq:
  assumes "deref conn = Some (p, l)"
  shows "sendSyn conn = (inject conn (sends conn),
      after_send conn p l ((cleared (tcp l))\<lparr>SYN := True, Options := Options (tcp l) @ syn_options\<rparr>)
                          ((cleared (tcp l))\<lparr>SYN := True\<rparr>))"
proof -
  from assms have lp: "layer conn = Some p" by (simp add: deref_Some)
  have opts: "Options (cleared (tcp l)) = Options (tcp l)" by (simp add: cleared_def)
  have same: "(cleared (tcp l))\<lparr>SYN := True, Options := Options (tcp l)\<rparr> = (cleared (tcp l))\<lparr>SYN := True\<rparr>"
    by (simp add: cleared_def)
  show ?thesis
    by (simp add: sendSyn_def updateTCP_eq [OF assms] deref_heap_upd [OF lp] set_tcp_heap_upd [OF lp]
          sendPacket_tcp [OF assms] set_tcp_after_send [OF lp] opts same Let_def)
qed

lemma sendSynAck_eq:
  assumes "deref conn = Some (p, l)"
  shows "sendSynAck conn = (inject conn (sends conn),
      after_send conn p l ((cleared (tcp l))\<lparr>SYN := True, ACK := True, Options := Options (tcp l) @ syn_options\<rparr>)
                          ((cleared (tcp l))\<lparr>SYN := True, ACK := True\<rparr>))"
proof -
  from assms have lp: "layer conn = Some p" by (simp add: deref_Some)
  have opts: "Options (cleared (tcp l)) = Options (tcp l)" by (simp add: cleared_def)
  have same: "(cleared (tcp l))\<lparr>SYN := True, ACK := True, Options := Options (tcp l)\<rparr> = (cleared (tcp l))\<lparr>SYN := True, ACK := True\<rparr>"
    by (simp add: cleared_def)
  show ?thesis
    by (simp add: sendSynAck_def updateTCP_eq [OF assms] deref_heap_upd [OF lp] set_tcp_heap_upd [OF lp]
          sendPacket_tcp [OF assms] set_tcp_after_send [OF lp] opts same Let_def)
qed


lemma run_helper_eq:
  assumes "deref conn = Some (p, l)"
  shows "run_helper h conn
         = (inject conn (sends conn), after_send conn p l (sent_tcp h (tcp l)) (kept_tcp h (tcp l)))"
  by (cases h)
     (simp_all add: sendSyn_eq [OF assms] sendSynAck_eq [OF assms] sendAck_eq [OF assms]
        sendFin_eq [OF assms] sendRst_eq [OF assms] write_seg_eq [OF assms])

lemma wire_append: "wire (xs @ ys) = wire xs @ wire ys"
  by (induction xs rule: wire.induct) simp_all

lemma wire_emitted: "wire (emitted err seg) = (case err of None \<Rightarrow> [seg] | Some _ \<Rightarrow> [])"
  by (simp add: emitted_def split: option.splits)

lemma trace_after_send:
  "trace (after_send conn p l s k)
   = trace conn @ emitted (inject conn (sends conn)) \<lparr>eth = eth l, ip4 = sent_ip l, tcp = s\<rparr>"
  by (simp add: after_send_def)

lemma flags_sent_tcp: "unwritten_clear t \<Longrightarrow> flags_of (sent_tcp h t) = helper_flags h"
  by (cases h) (auto simp: flags_of_def cleared_def unwritten_clear_def)

lemma unwritten_kept_tcp: "unwritten_clear t \<Longrightarrow> unwritten_clear (kept_tcp h t)"
  by (cases h) (simp_all add: cleared_def unwritten_clear_def)

section \<open>Flags and IPv4 IDs of emitted segments\<close>

lemma deref_after_helper:
  assumes "deref conn = Some (p, l)"
  shows "deref (snd (run_helper h conn)) = Some (p, \<lparr>eth = eth l, ip4 = sent_ip l, tcp = kept_tcp h (tcp l)\<rparr>)"
  using assms by (simp add: run_helper_eq [OF assms] deref_after_send deref_Some)

lemma unwritten_newRAWConn:
  "heap (newRAWConn r e local remote outc rid rseq) 0 = Some l \<Longrightarrow> unwritten_clear (tcp l)"
  by (auto simp: newRAWConn_def unwritten_clear_def)

lemma unwritten_reply_layer: "unwritten_clear (tcp (reply_layer listener cl))"
  by (simp add: reply_layer_def unwritten_clear_def)

text \<open>
  Claim C5. Every segment that reaches the wire is put there by \<open>sendPacket\<close>, which
  only the six helpers call. Whatever flags an earlier send left in the template,
  a helper that succeeds appends one segment whose set of control flags is exactly
  the helper's own (SYN; SYN+ACK; ACK; PSH+ACK; FIN; RST), and a helper that fails
  appends none. \<open>updateTCP\<close> clears FIN, PSH, ACK, RST and SYN, the only flags a
  helper sets; URG, ECE, CWR and NS are written nowhere, are clear in the templates
  that \<open>DialRAW\<close> and \<open>RAWListener.ReadFrom\<close> build, and stay clear across a call.
\<close>

theorem flag_discipline:
  assumes "deref conn = Some (p, l)" and "unwritten_clear (tcp l)"
  shows "map (\<lambda>s. flags_of (tcp s)) (wire (trace (snd (run_helper h conn))))
           = map (\<lambda>s. flags_of (tcp s)) (wire (trace conn))
             @ (case fst (run_helper h conn) of None \<Rightarrow> [helper_flags h] | Some e \<Rightarrow> [])
         \<and> (\<exists>l'. deref (snd (run_helper h conn)) = Some (p, l') \<and> unwritten_clear (tcp l'))"
proof -
  have "flags_of (sent_tcp h (tcp l)) = helper_flags h"
    using assms(2) by (rule flags_sent_tcp)
  then have 1: "map (\<lambda>s. flags_of (tcp s)) (wire (trace (snd (run_helper h conn))))
           = map (\<lambda>s. flags_of (tcp s)) (wire (trace conn))
             @ (case fst (run_helper h conn) of None \<Rightarrow> [helper_flags h] | Some e \<Rightarrow> [])"
    by (simp add: run_helper_eq [OF assms(1)] trace_after_send wire_append wire_emitted
             split: option.splits)
  have 2: "unwritten_clear (kept_tcp h (tcp l))"
    using assms(2) by (rule unwritten_kept_tcp)
  show ?thesis
    using 1 2 deref_after_helper [OF assms(1), of h] by simp
qed

theorem flag_discipline_witness:
  "deref (ex_conn send_ok) = Some (0, the (heap (ex_conn send_ok) 0))
   \<and> unwritten_clear (tcp (the (heap (ex_conn send_ok) 0)))
   \<and> map (\<lambda>s. flags_of (tcp s)) (wire (trace (snd (run_helper (Data ''hello'') (ex_conn send_ok)))))
       = [{F_PSH, F_ACK}]"
proof -
  let ?c = "ex_conn send_ok"
  have d: "deref ?c = Some (0, the (heap ?c 0))"
    by (simp add: ex_conn_def newRAWConn_def deref_def)
  have u: "unwritten_clear (tcp (the (heap ?c 0)))"
    by (simp add: ex_conn_def newRAWConn_def unwritten_clear_def)
  have t0: "trace ?c = []" "inject ?c = send_ok"
    by (simp_all add: ex_conn_def newRAWConn_def)
  have ok: "fst (run_helper (Data ''hello'') ?c) = None"
    by (simp add: run_helper_eq [OF d] t0 send_ok_def del: run_helper.simps)
  from flag_discipline [OF d u, of "Data ''hello''"]
  have "map (\<lambda>s. flags_of (tcp s)) (wire (trace (snd (run_helper (Data ''hello'') ?c))))
       = [{F_PSH, F_ACK}]"
    by (simp add: t0 send_ok_def ok del: run_helper.simps)
  with d u show ?thesis by simp
qed



section \<open>Writing\<close>

lemma deref_trace_upd: "deref (conn\<lparr>trace := t\<rparr>) = deref conn"
  by (simp add: deref_def split: option.splits)

lemma Write_eq:
  assumes "deref conn = Some (p, l)"
  shows "fst (Write conn b) = (length b, inject conn (sends conn))"
    and "trace (snd (Write conn b))
         = trace conn @ [LockTaken]
           @ emitted (inject conn (sends conn))
               \<lparr>eth = eth l, ip4 = sent_ip l, tcp = (cleared (tcp l))\<lparr>PSH := True, ACK := True, Payload := b\<rparr>\<rparr>
           @ [LockReleased]"
    and "deref (snd (Write conn b))
         = Some (p, \<lparr>eth = eth l, ip4 = sent_ip l,
                     tcp = (cleared (tcp l))\<lparr>PSH := True, ACK := True, Payload := [],
                                             Seq := Seq (tcp l) + of_nat (length b)\<rparr>\<rparr>)"
proof -
  let ?c0 = "conn\<lparr>trace := trace conn @ [LockTaken]\<rparr>"
  have d0: "deref ?c0 = Some (p, l)" using assms by (simp add: deref_Some)
  have lp: "layer ?c0 = Some p" using assms by (simp add: deref_Some)
  note w = write_seg_eq [OF d0, of b]
  let ?k = "(cleared (tcp l))\<lparr>PSH := True, ACK := True, Payload := []\<rparr>"
  let ?c1 = "after_send ?c0 p l ((cleared (tcp l))\<lparr>PSH := True, ACK := True, Payload := b\<rparr>) ?k"
  have d1: "deref ?c1 = Some (p, \<lparr>eth = eth l, ip4 = sent_ip l, tcp = ?k\<rparr>)"
    using lp by (rule deref_after_send)
  have W: "Write conn b = ((length b, inject conn (sends conn)),
             (set_tcp (\<lambda>t. t\<lparr>Seq := Seq t + of_nat (length b)\<rparr>) ?c1)\<lparr>trace := trace (set_tcp (\<lambda>t. t\<lparr>Seq := Seq t + of_nat (length b)\<rparr>) ?c1) @ [LockReleased]\<rparr>)"
    by (simp add: Write_def w d1 Let_def)
  have s: "set_tcp (\<lambda>t. t\<lparr>Seq := Seq t + of_nat (length b)\<rparr>) ?c1
           = after_send ?c0 p l ((cleared (tcp l))\<lparr>PSH := True, ACK := True, Payload := b\<rparr>)
               (?k\<lparr>Seq := Seq ?k + of_nat (length b)\<rparr>)"
    using lp by (rule set_tcp_after_send)
  show "fst (Write conn b) = (length b, inject conn (sends conn))" by (simp add: W)
  show "trace (snd (Write conn b))
         = trace conn @ [LockTaken]
           @ emitted (inject conn (sends conn))
               \<lparr>eth = eth l, ip4 = sent_ip l, tcp = (cleared (tcp l))\<lparr>PSH := True, ACK := True, Payload := b\<rparr>\<rparr>
           @ [LockReleased]"
    by (simp add: W s trace_after_send)
  have "deref (snd (Write conn b)) = deref (after_send ?c0 p l ((cleared (tcp l))\<lparr>PSH := True, ACK := True, Payload := b\<rparr>)
               (?k\<lparr>Seq := Seq ?k + of_nat (length b)\<rparr>))"
    by (simp add: W s deref_trace_upd)
  also have "\<dots> = Some (p, \<lparr>eth = eth l, ip4 = sent_ip l, tcp = ?k\<lparr>Seq := Seq ?k + of_nat (length b)\<rparr>\<rparr>)"
    using lp by (rule deref_after_send)
  finally show "deref (snd (Write conn b))
         = Some (p, \<lparr>eth = eth l, ip4 = sent_ip l,
                     tcp = (cleared (tcp l))\<lparr>PSH := True, ACK := True, Payload := [],
                                             Seq := Seq (tcp l) + of_nat (length b)\<rparr>\<rparr>)"
    by (simp add: cleared_def)
qed

text \<open>
  Claim C1, as the code has it. \<open>Write\<close> on a connection with a template, and
  \<open>WriteTo\<close> for a peer of the table \<open>conns\<close>, take \<open>conn.lock\<close>, hand one segment
  to \<open>sendPacket\<close> with PSH and ACK set and the payload \<open>b\<close>, advance the sequence
  number of the template by \<open>len(b)\<close> modulo \<open>2^32\<close> and release the lock. The
  segment reaches the wire exactly when the send succeeds; the sequence number is
  advanced whether it does or not, and \<open>n = len(b)\<close> is returned with the error.
\<close>

theorem Write_seq_unconditional:
  "(deref conn = Some (p, l) \<longrightarrow>
      fst (Write conn b) = (length b, inject conn (sends conn))
    \<and> trace (snd (Write conn b))
        = trace conn @ [LockTaken]
          @ emitted (inject conn (sends conn))
              \<lparr>eth = eth l, ip4 = sent_ip l, tcp = (cleared (tcp l))\<lparr>PSH := True, ACK := True, Payload := b\<rparr>\<rparr>
          @ [LockReleased]
    \<and> (\<exists>l'. deref (snd (Write conn b)) = Some (p, l')
             \<and> Seq (tcp l') = Seq (tcp l) + of_nat (length b)))
   \<and> (conns listener addr = Some info \<and> heap listener (c_layer info) = Some tmpl \<longrightarrow>
      fst (WriteTo listener b addr) = (length b, inject listener (sends listener))
    \<and> trace (snd (WriteTo listener b addr))
        = trace listener @ [LockTaken]
          @ emitted (inject listener (sends listener))
              \<lparr>eth = eth tmpl, ip4 = sent_ip tmpl, tcp = (cleared (tcp tmpl))\<lparr>PSH := True, ACK := True, Payload := b\<rparr>\<rparr>
          @ [LockReleased]
    \<and> (\<exists>l'. heap (snd (WriteTo listener b addr)) (c_layer info) = Some l'
             \<and> Seq (tcp l') = Seq (tcp tmpl) + of_nat (length b)))"
proof (intro conjI impI)
  assume d: "deref conn = Some (p, l)"
  show "fst (Write conn b) = (length b, inject conn (sends conn))"
    by (rule Write_eq(1) [OF d])
  show "trace (snd (Write conn b))
        = trace conn @ [LockTaken]
          @ emitted (inject conn (sends conn))
              \<lparr>eth = eth l, ip4 = sent_ip l, tcp = (cleared (tcp l))\<lparr>PSH := True, ACK := True, Payload := b\<rparr>\<rparr>
          @ [LockReleased]"
    by (rule Write_eq(2) [OF d])
  show "\<exists>l'. deref (snd (Write conn b)) = Some (p, l') \<and> Seq (tcp l') = Seq (tcp l) + of_nat (length b)"
    by (simp add: Write_eq(3) [OF d])
next
  assume a: "conns listener addr = Some info \<and> heap listener (c_layer info) = Some tmpl"
  let ?c = "listener\<lparr>layer := Some (c_layer info)\<rparr>"
  have d: "deref ?c = Some (c_layer info, tmpl)" using a by (simp add: deref_Some)
  have W: "WriteTo listener b addr = Write ?c b" using a by (simp add: WriteTo_def)
  show "fst (WriteTo listener b addr) = (length b, inject listener (sends listener))"
    using Write_eq(1) [OF d, of b] by (simp add: W)
  show "trace (snd (WriteTo listener b addr))
        = trace listener @ [LockTaken]
          @ emitted (inject listener (sends listener))
              \<lparr>eth = eth tmpl, ip4 = sent_ip tmpl, tcp = (cleared (tcp tmpl))\<lparr>PSH := True, ACK := True, Payload := b\<rparr>\<rparr>
          @ [LockReleased]"
    using Write_eq(2) [OF d, of b] by (simp add: W)
  show "\<exists>l'. heap (snd (WriteTo listener b addr)) (c_layer info) = Some l'
             \<and> Seq (tcp l') = Seq (tcp tmpl) + of_nat (length b)"
    using Write_eq(3) [OF d, of b] by (simp add: W deref_Some)
qed

theorem Write_seq_unconditional_witness:
  "deref (ex_conn send_fails) = Some (0, the (heap (ex_conn send_fails) 0))
   \<and> fst (Write (ex_conn send_fails) ''hi'') = (2, Some (IOErr ''send failed''))
   \<and> (\<exists>l'. deref (snd (Write (ex_conn send_fails) ''hi'')) = Some (0, l')
            \<and> Seq (tcp l') = 1002)
   \<and> conns (ex_listener send_ok Map.empty [''10.0.0.1:4000'' \<mapsto> ex_info established]) ''10.0.0.1:4000''
       = Some (ex_info established)
   \<and> heap (ex_listener send_ok Map.empty [''10.0.0.1:4000'' \<mapsto> ex_info established]) (c_layer (ex_info established))
       = Some ex_template
   \<and> fst (WriteTo (ex_listener send_ok Map.empty [''10.0.0.1:4000'' \<mapsto> ex_info established]) ''hi'' ''10.0.0.1:4000'')
       = (2, None)
   \<and> (\<exists>l'. heap (snd (WriteTo (ex_listener send_ok Map.empty [''10.0.0.1:4000'' \<mapsto> ex_info established]) ''hi'' ''10.0.0.1:4000'')) 0 = Some l'
            \<and> Seq (tcp l') = 5002)"
proof -
  let ?c = "ex_conn send_fails"
  let ?L = "ex_listener send_ok Map.empty [''10.0.0.1:4000'' \<mapsto> ex_info established]"
  have d: "deref ?c = Some (0, the (heap ?c 0))"
    by (simp add: ex_conn_def newRAWConn_def deref_def)
  have v: "inject ?c (sends ?c) = Some (IOErr ''send failed'')" "Seq (tcp (the (heap ?c 0))) = 1000"
    by (simp_all add: ex_conn_def newRAWConn_def send_fails_def)
  have a: "conns ?L ''10.0.0.1:4000'' = Some (ex_info established)
           \<and> heap ?L (c_layer (ex_info established)) = Some ex_template"
    by (simp add: ex_listener_def ex_info_def)
  have w: "inject ?L (sends ?L) = None" "Seq (tcp ex_template) = 5000" "c_layer (ex_info established) = 0"
    by (simp_all add: ex_listener_def ex_template_def ex_info_def send_ok_def)
  from Write_seq_unconditional [of ?c 0 "the (heap ?c 0)" "''hi''" ?L "''10.0.0.1:4000''" "ex_info established" ex_template]
    d a show ?thesis
    by (simp add: v w)
qed

text \<open>
  Claim C1 as stated fails where it says that a failed send leaves the sequence
  number alone: with a handle that refuses the frame, \<open>Write\<close> of two bytes returns the
  error, puts nothing on the wire and moves the sequence number from 1000 to 1002.
\<close>

theorem Write_failed_send_counterexample:
  "snd (fst (Write (ex_conn send_fails) ''hi'')) = Some (IOErr ''send failed'')
   \<and> wire (trace (snd (Write (ex_conn send_fails) ''hi''))) = []
   \<and> tmpl_seq (ex_conn send_fails) 0 = Some 1000
   \<and> tmpl_seq (snd (Write (ex_conn send_fails) ''hi'')) 0 = Some 1002"
proof -
  let ?c = "ex_conn send_fails"
  have d: "deref ?c = Some (0, the (heap ?c 0))"
    by (simp add: ex_conn_def newRAWConn_def deref_def)
  have v: "inject ?c (sends ?c) = Some (IOErr ''send failed'')" "Seq (tcp (the (heap ?c 0))) = 1000"
          "trace ?c = []" "heap ?c 0 \<noteq> None"
    by (simp_all add: ex_conn_def newRAWConn_def send_fails_def)
  from Write_eq [OF d, of "''hi''"] v show ?thesis
    by (auto simp: tmpl_seq_def deref_Some emitted_def)
qed

text \<open>
  Claim C8. \<open>WriteTo\<close> for an address that is not a key of \<open>conns\<close> returns 0 and the
  error \<open>cannot write to <addr>\<close>, and the listener (its tables, its templates, its
  trace of locks and emitted segments) is as it was.
\<close>

theorem WriteTo_unknown_peer:
  "conns listener addr = None \<Longrightarrow>
   WriteTo listener b addr = ((0, Some (ErrMsg (''cannot write to '' @ addr))), listener)"
  by (simp add: WriteTo_def)

theorem WriteTo_unknown_peer_witness:
  "conns (ex_listener send_ok [''10.0.0.1:4000'' \<mapsto> ex_info waithttpreq] Map.empty) ''10.0.0.1:4000'' = None
   \<and> WriteTo (ex_listener send_ok [''10.0.0.1:4000'' \<mapsto> ex_info waithttpreq] Map.empty) ''data'' ''10.0.0.1:4000''
     = ((0, Some (ErrMsg ''cannot write to 10.0.0.1:4000'')),
        ex_listener send_ok [''10.0.0.1:4000'' \<mapsto> ex_info waithttpreq] Map.empty)"
proof -
  have c: "conns (ex_listener send_ok [''10.0.0.1:4000'' \<mapsto> ex_info waithttpreq] Map.empty) ''10.0.0.1:4000'' = None"
    by (simp add: ex_listener_def)
  from WriteTo_unknown_peer [OF c, of "''data''"] c show ?thesis by simp
qed

section \<open>Reading\<close>


lemma ReadFrom_body_accept:
  assumes "\<not> SYN (tcp cl)" "PSH (tcp cl)" "ACK (tcp cl)" "Seq (tcp cl) \<noteq> hseqn conn"
      and "deref conn = Some (p, l)" and "Payload (tcp cl) \<noteq> []"
  shows "ReadFrom_body conn b cl =
           (Some \<lparr>n_of = min (length b) (length (Payload (tcp cl))),
                  addr_of = Some (if udp conn
                                  then \<lparr>IP_of = DstIP (ip4 l), Port = unat (DstPort (tcp l))\<rparr>
                                  else \<lparr>IP_of = SrcIP (ip4 cl), Port = unat (SrcPort (tcp cl))\<rparr>),
                  err_of = None,
                  buf_of = take (min (length b) (length (Payload (tcp cl)))) (Payload (tcp cl))
                           @ drop (min (length b) (length (Payload (tcp cl)))) b\<rparr>,
            if unat (Seq (tcp cl)) + length (Payload (tcp cl)) > unat (Ack (tcp l))
            then set_tcp (\<lambda>x. x\<lparr>Ack := Seq (tcp cl) + of_nat (length (Payload (tcp cl)))\<rparr>) conn
            else conn)"
  using assms by (simp add: ReadFrom_body_def RemoteAddr_def copy_into_def Let_def)

lemma set_info_tcp_eq:
  "heap l0 (c_layer info) = Some tmpl \<Longrightarrow>
   set_info_tcp f info l0
   = l0\<lparr>heap := (heap l0)(c_layer info \<mapsto> \<lparr>eth = eth tmpl, ip4 = ip4 tmpl, tcp = f (tcp tmpl)\<rparr>)\<rparr>"
  by (simp add: set_info_tcp_def pkt_tcp_upd)

lemma listen_conns_established:
  assumes "conns l0 (UDPAddr_String a) = Some info" and "c_state info = established"
      and "heap l0 (c_layer info) = Some tmpl"
  shows "listen_conns l0 b cl a info =
           (Some \<lparr>n_of = min (length b) (length (Payload (tcp cl))), addr_of = Some a, err_of = None,
                  buf_of = take (min (length b) (length (Payload (tcp cl)))) (Payload (tcp cl))
                           @ drop (min (length b) (length (Payload (tcp cl)))) b\<rparr>,
            if unat (Seq (tcp cl)) + length (Payload (tcp cl)) > unat (Ack (tcp tmpl))
            then set_info_tcp (\<lambda>x. x\<lparr>Ack := Seq (tcp cl) + of_nat (length (Payload (tcp cl)))\<rparr>) info l0
            else l0)"
  using assms
  by (simp add: listen_conns_def copy_into_def Let_def set_info_tcp_eq map_upd_triv)

lemma listen_body_established:
  assumes "\<not> RST (tcp cl)" "\<not> FIN (tcp cl)" and "Payload (tcp cl) \<noteq> []"
      and "conns listener (UDPAddr_String \<lparr>IP_of = SrcIP (ip4 cl), Port = unat (SrcPort (tcp cl))\<rparr>) = Some info"
      and "c_state info = established" and "heap listener (c_layer info) = Some tmpl"
  shows "listen_body hrep listener b n0 cl =
           (Some \<lparr>n_of = min (length b) (length (Payload (tcp cl))),
                  addr_of = Some \<lparr>IP_of = SrcIP (ip4 cl), Port = unat (SrcPort (tcp cl))\<rparr>, err_of = None,
                  buf_of = take (min (length b) (length (Payload (tcp cl)))) (Payload (tcp cl))
                           @ drop (min (length b) (length (Payload (tcp cl)))) b\<rparr>,
            length (Payload (tcp cl)),
            if unat (Seq (tcp cl)) + length (Payload (tcp cl)) > unat (Ack (tcp tmpl))
            then set_info_tcp (\<lambda>x. x\<lparr>Ack := Seq (tcp cl) + of_nat (length (Payload (tcp cl)))\<rparr>) info
                   (listener\<lparr>layer := None\<rparr>)
            else listener\<lparr>layer := None\<rparr>)"
proof -
  let ?a = "\<lparr>IP_of = SrcIP (ip4 cl), Port = unat (SrcPort (tcp cl))\<rparr>"
  let ?l0 = "listener\<lparr>layer := None\<rparr>"
  have c: "conns ?l0 (UDPAddr_String ?a) = Some info" using assms(4) by simp
  have h: "heap ?l0 (c_layer info) = Some tmpl" using assms(6) by simp
  show ?thesis
    using assms(1-3) c
    by (simp add: listen_body_def Let_def listen_conns_established [OF c assms(5) h])
qed

lemma ReadFrom_accept:
  assumes "readLayers conn evs = Some (Inr cl, rest)"
      and "\<not> SYN (tcp cl)" "PSH (tcp cl)" "ACK (tcp cl)" "Seq (tcp cl) \<noteq> hseqn conn"
      and "deref conn = Some (p, l)" and "Payload (tcp cl) \<noteq> []"
  shows "ReadFrom conn b evs =
           Some (\<lparr>n_of = min (length b) (length (Payload (tcp cl))),
                  addr_of = Some (if udp conn
                                  then \<lparr>IP_of = DstIP (ip4 l), Port = unat (DstPort (tcp l))\<rparr>
                                  else \<lparr>IP_of = SrcIP (ip4 cl), Port = unat (SrcPort (tcp cl))\<rparr>),
                  err_of = None,
                  buf_of = take (min (length b) (length (Payload (tcp cl)))) (Payload (tcp cl))
                           @ drop (min (length b) (length (Payload (tcp cl)))) b\<rparr>,
            (if unat (Seq (tcp cl)) + length (Payload (tcp cl)) > unat (Ack (tcp l))
             then set_tcp (\<lambda>x. x\<lparr>Ack := Seq (tcp cl) + of_nat (length (Payload (tcp cl)))\<rparr>) conn
             else conn)\<lparr>rtimer := False\<rparr>, rest)"
  unfolding ReadFrom_def
  by (subst ReadFrom_loop.simps) (simp add: assms(1) ReadFrom_body_accept [OF assms(2-7)])

lemma Listener_ReadFrom_established:
  assumes "readLayers listener evs = Some (Inr cl, rest)"
      and "\<not> RST (tcp cl)" "\<not> FIN (tcp cl)" and "Payload (tcp cl) \<noteq> []"
      and "conns listener (UDPAddr_String \<lparr>IP_of = SrcIP (ip4 cl), Port = unat (SrcPort (tcp cl))\<rparr>) = Some info"
      and "c_state info = established" and "heap listener (c_layer info) = Some tmpl"
  shows "Listener_ReadFrom hrep listener b evs =
           Some (\<lparr>n_of = min (length b) (length (Payload (tcp cl))),
                  addr_of = Some \<lparr>IP_of = SrcIP (ip4 cl), Port = unat (SrcPort (tcp cl))\<rparr>, err_of = None,
                  buf_of = take (min (length b) (length (Payload (tcp cl)))) (Payload (tcp cl))
                           @ drop (min (length b) (length (Payload (tcp cl)))) b\<rparr>,
            (if unat (Seq (tcp cl)) + length (Payload (tcp cl)) > unat (Ack (tcp tmpl))
             then set_info_tcp (\<lambda>x. x\<lparr>Ack := Seq (tcp cl) + of_nat (length (Payload (tcp cl)))\<rparr>) info
                   (listener\<lparr>layer := None\<rparr>)
             else listener\<lparr>layer := None\<rparr>), rest)"
  unfolding Listener_ReadFrom_def
  by (subst listen_loop.simps) (simp add: assms(1) listen_body_established [OF assms(2-7)])

lemma tmpl_ack_set_tcp:
  "deref conn = Some (p, l) \<Longrightarrow> tmpl_ack (set_tcp f conn) p = Some (Ack (f (tcp l)))"
  by (simp add: tmpl_ack_def set_tcp_eq)

lemma tmpl_ack_set_info_tcp:
  "heap l0 (c_layer info) = Some tmpl \<Longrightarrow>
   tmpl_ack (set_info_tcp f info l0) (c_layer info) = Some (Ack (f (tcp tmpl)))"
  by (simp add: tmpl_ack_def set_info_tcp_eq)

lemma tmpl_ack_rtimer: "tmpl_ack (c\<lparr>rtimer := x\<rparr>) p = tmpl_ack c p"
  by (simp add: tmpl_ack_def)


lemma peer_addr_string:
  "UDPAddr_String \<lparr>IP_of = IPv4 10 0 0 1, Port = 4000\<rparr> = ''10.0.0.1:4000''"
  by code_simp

lemma ex_dialled_deref:
  "deref ex_dialled = Some (0, \<lparr>eth = None,
      ip4 = \<lparr>SrcIP = IPv4 10 0 0 1, DstIP = IPv4 10 0 0 2, Protocol = 6, Version = 4,
             IPId = 7, Flags = 2, TTL = 0x40, TOS = 0\<rparr>,
      tcp = \<lparr>SrcPort = 4000, DstPort = 80, Seq = 1000, Ack = 1001,
             FIN = False, SYN = False, RST = False, PSH = False, ACK = False,
             URG = False, ECE = False, CWR = False, NS = False,
             Window = 12580, Options = [], Padding = [], Payload = []\<rparr>\<rparr>)"
  by (simp add: ex_dialled_def ex_conn_def newRAWConn_def ex_raw_def set_tcp_def deref_def)

lemma readLayers_from_server:
  "readLayers ex_dialled (Captured (from_server t) # evs)
   = Some (Inr \<lparr>eth = None, ip4 = \<lparr>SrcIP = IPv4 10 0 0 2, DstIP = IPv4 10 0 0 1, Protocol = 6,
                                   Version = 4, IPId = 1, Flags = 2, TTL = 0x40, TOS = 0\<rparr>,
                 tcp = t\<rparr>, evs)"
  by (simp add: from_server_def ex_dialled_def ex_conn_def newRAWConn_def ex_raw_def set_tcp_def deref_def)

lemma readLayers_from_peer:
  "readLayers (ex_listener outc nc cs) (Captured (from_peer t) # evs)
   = Some (Inr \<lparr>eth = None, ip4 = \<lparr>SrcIP = IPv4 10 0 0 1, DstIP = IPv4 10 0 0 2, Protocol = 6,
                                   Version = 4, IPId = 1, Flags = 2, TTL = 0x40, TOS = 0\<rparr>,
                 tcp = t\<rparr>, evs) \<or> RST t"
  by (simp add: from_peer_def ex_listener_def ex_raw_def)

lemma ex_listener_fields:
  "heap (ex_listener outc nc cs) 0 = Some ex_template"
  "conns (ex_listener outc nc cs) = cs"
  "newcons (ex_listener outc nc cs) = nc"
  "inject (ex_listener outc nc cs) = outc"
  "sends (ex_listener outc nc cs) = 0"
  "trace (ex_listener outc nc cs) = []"
  by (simp_all add: ex_listener_def)




text \<open>
  Claim C9. When the caller's buffer is shorter than the payload of the segment
  that is delivered (by \<open>RAWConn.ReadFrom\<close>, or by \<open>RAWListener.ReadFrom\<close> for a flow
  that is \<open>established\<close>), the read returns \<open>n = len(b)\<close> and no error, the buffer
  holds the first \<open>len(b)\<close> bytes of the payload, nothing of the rest is kept, and the
  acknowledgement number is set from the full length of the payload.
\<close>

theorem short_buffer_read:
  "(readLayers conn evs = Some (Inr cl, rest)
      \<and> \<not> SYN (tcp cl) \<and> PSH (tcp cl) \<and> ACK (tcp cl) \<and> Seq (tcp cl) \<noteq> hseqn conn
      \<and> deref conn = Some (p, l) \<and> length b < length (Payload (tcp cl)) \<longrightarrow>
      ReadFrom conn b evs =
        Some (\<lparr>n_of = length b,
               addr_of = Some (if udp conn
                               then \<lparr>IP_of = DstIP (ip4 l), Port = unat (DstPort (tcp l))\<rparr>
                               else \<lparr>IP_of = SrcIP (ip4 cl), Port = unat (SrcPort (tcp cl))\<rparr>),
               err_of = None,
               buf_of = take (length b) (Payload (tcp cl))\<rparr>,
              (if unat (Seq (tcp cl)) + length (Payload (tcp cl)) > unat (Ack (tcp l))
               then set_tcp (\<lambda>x. x\<lparr>Ack := Seq (tcp cl) + of_nat (length (Payload (tcp cl)))\<rparr>) conn
               else conn)\<lparr>rtimer := False\<rparr>,
              rest))
   \<and> (readLayers listener evs = Some (Inr cl, rest)
      \<and> \<not> RST (tcp cl) \<and> \<not> FIN (tcp cl)
      \<and> conns listener (UDPAddr_String \<lparr>IP_of = SrcIP (ip4 cl), Port = unat (SrcPort (tcp cl))\<rparr>) = Some info
      \<and> c_state info = established \<and> heap listener (c_layer info) = Some tmpl
      \<and> length b < length (Payload (tcp cl)) \<longrightarrow>
      Listener_ReadFrom hrep listener b evs =
        Some (\<lparr>n_of = length b,
               addr_of = Some \<lparr>IP_of = SrcIP (ip4 cl), Port = unat (SrcPort (tcp cl))\<rparr>,
               err_of = None,
               buf_of = take (length b) (Payload (tcp cl))\<rparr>,
              (if unat (Seq (tcp cl)) + length (Payload (tcp cl)) > unat (Ack (tcp tmpl))
               then set_info_tcp (\<lambda>x. x\<lparr>Ack := Seq (tcp cl) + of_nat (length (Payload (tcp cl)))\<rparr>) info
                      (listener\<lparr>layer := None\<rparr>)
               else listener\<lparr>layer := None\<rparr>),
              rest))"
proof (intro conjI impI)
  assume a: "readLayers conn evs = Some (Inr cl, rest)
      \<and> \<not> SYN (tcp cl) \<and> PSH (tcp cl) \<and> ACK (tcp cl) \<and> Seq (tcp cl) \<noteq> hseqn conn
      \<and> deref conn = Some (p, l) \<and> length b < length (Payload (tcp cl))"
  then have ne: "Payload (tcp cl) \<noteq> []" and m: "min (length b) (length (Payload (tcp cl))) = length b"
    by auto
  from a ne have "ReadFrom conn b evs = Some (\<lparr>n_of = min (length b) (length (Payload (tcp cl))),
                  addr_of = Some (if udp conn
                                  then \<lparr>IP_of = DstIP (ip4 l), Port = unat (DstPort (tcp l))\<rparr>
                                  else \<lparr>IP_of = SrcIP (ip4 cl), Port = unat (SrcPort (tcp cl))\<rparr>),
                  err_of = None,
                  buf_of = take (min (length b) (length (Payload (tcp cl)))) (Payload (tcp cl))
                           @ drop (min (length b) (length (Payload (tcp cl)))) b\<rparr>,
            (if unat (Seq (tcp cl)) + length (Payload (tcp cl)) > unat (Ack (tcp l))
             then set_tcp (\<lambda>x. x\<lparr>Ack := Seq (tcp cl) + of_nat (length (Payload (tcp cl)))\<rparr>) conn
             else conn)\<lparr>rtimer := False\<rparr>, rest)"
    by (intro ReadFrom_accept) simp_all
  then show "ReadFrom conn b evs =
        Some (\<lparr>n_of = length b,
               addr_of = Some (if udp conn
                               then \<lparr>IP_of = DstIP (ip4 l), Port = unat (DstPort (tcp l))\<rparr>
                               else \<lparr>IP_of = SrcIP (ip4 cl), Port = unat (SrcPort (tcp cl))\<rparr>),
               err_of = None,
               buf_of = take (length b) (Payload (tcp cl))\<rparr>,
              (if unat (Seq (tcp cl)) + length (Payload (tcp cl)) > unat (Ack (tcp l))
               then set_tcp (\<lambda>x. x\<lparr>Ack := Seq (tcp cl) + of_nat (length (Payload (tcp cl)))\<rparr>) conn
               else conn)\<lparr>rtimer := False\<rparr>,
              rest)"
    by (simp only: m drop_all [OF order_refl] append_Nil2)
next
  assume a: "readLayers listener evs = Some (Inr cl, rest)
      \<and> \<not> RST (tcp cl) \<and> \<not> FIN (tcp cl)
      \<and> conns listener (UDPAddr_String \<lparr>IP_of = SrcIP (ip4 cl), Port = unat (SrcPort (tcp cl))\<rparr>) = Some info
      \<and> c_state info = established \<and> heap listener (c_layer info) = Some tmpl
      \<and> length b < length (Payload (tcp cl))"
  then have ne: "Payload (tcp cl) \<noteq> []" and m: "min (length b) (length (Payload (tcp cl))) = length b"
    by auto
  from a ne have "Listener_ReadFrom hrep listener b evs =
           Some (\<lparr>n_of = min (length b) (length (Payload (tcp cl))),
                  addr_of = Some \<lparr>IP_of = SrcIP (ip4 cl), Port = unat (SrcPort (tcp cl))\<rparr>, err_of = None,
                  buf_of = take (min (length b) (length (Payload (tcp cl)))) (Payload (tcp cl))
                           @ drop (min (length b) (length (Payload (tcp cl)))) b\<rparr>,
            (if unat (Seq (tcp cl)) + length (Payload (tcp cl)) > unat (Ack (tcp tmpl))
             then set_info_tcp (\<lambda>x. x\<lparr>Ack := Seq (tcp cl) + of_nat (length (Payload (tcp cl)))\<rparr>) info
                   (listener\<lparr>layer := None\<rparr>)
             else listener\<lparr>layer := None\<rparr>), rest)"
    by (intro Listener_ReadFrom_established) simp_all
  then show "Listener_ReadFrom hrep listener b evs =
        Some (\<lparr>n_of = length b,
               addr_of = Some \<lparr>IP_of = SrcIP (ip4 cl), Port = unat (SrcPort (tcp cl))\<rparr>,
               err_of = None,
               buf_of = take (length b) (Payload (tcp cl))\<rparr>,
              (if unat (Seq (tcp cl)) + length (Payload (tcp cl)) > unat (Ack (tcp tmpl))
               then set_info_tcp (\<lambda>x. x\<lparr>Ack := Seq (tcp cl) + of_nat (length (Payload (tcp cl)))\<rparr>) info
                      (listener\<lparr>layer := None\<rparr>)
               else listener\<lparr>layer := None\<rparr>),
              rest)"
    by (simp only: m drop_all [OF order_refl] append_Nil2)
qed

theorem short_buffer_read_witness:
  "length ''..'' < length (Payload (data_seg 80 4000 2000 ''hello''))
   \<and> result_of (ReadFrom ex_dialled ''..'' [Captured (from_server (data_seg 80 4000 2000 ''hello''))])
       = Some \<lparr>n_of = 2, addr_of = Some \<lparr>IP_of = IPv4 10 0 0 2, Port = 80\<rparr>, err_of = None,
                buf_of = ''he''\<rparr>
   \<and> ack_after (ReadFrom ex_dialled ''..'' [Captured (from_server (data_seg 80 4000 2000 ''hello''))]) 0
       = Some 2005
   \<and> result_of (Listener_ReadFrom [] (ex_listener send_ok Map.empty [''10.0.0.1:4000'' \<mapsto> ex_info established]) ''..''
                  [Captured (from_peer (data_seg 4000 80 1001 ''hello''))])
       = Some \<lparr>n_of = 2, addr_of = Some \<lparr>IP_of = IPv4 10 0 0 1, Port = 4000\<rparr>, err_of = None,
                buf_of = ''he''\<rparr>
   \<and> ack_after (Listener_ReadFrom [] (ex_listener send_ok Map.empty [''10.0.0.1:4000'' \<mapsto> ex_info established]) ''..''
                  [Captured (from_peer (data_seg 4000 80 1001 ''hello''))]) 0
       = Some 1006"
proof -
  let ?t = "data_seg 80 4000 2000 ''hello''"
  let ?u = "data_seg 4000 80 1001 ''hello''"
  let ?L = "ex_listener send_ok Map.empty [''10.0.0.1:4000'' \<mapsto> ex_info established]"
  let ?cl = "\<lparr>eth = None, ip4 = \<lparr>SrcIP = IPv4 10 0 0 2, DstIP = IPv4 10 0 0 1, Protocol = 6,
                                   Version = 4, IPId = 1, Flags = 2, TTL = 0x40, TOS = 0\<rparr>, tcp = ?t\<rparr>"
  let ?cu = "\<lparr>eth = None, ip4 = \<lparr>SrcIP = IPv4 10 0 0 1, DstIP = IPv4 10 0 0 2, Protocol = 6,
                                   Version = 4, IPId = 1, Flags = 2, TTL = 0x40, TOS = 0\<rparr>, tcp = ?u\<rparr>"
  let ?l = "\<lparr>eth = None,
      ip4 = \<lparr>SrcIP = IPv4 10 0 0 1, DstIP = IPv4 10 0 0 2, Protocol = 6, Version = 4,
             IPId = 7, Flags = 2, TTL = 0x40, TOS = 0\<rparr>,
      tcp = \<lparr>SrcPort = 4000, DstPort = 80, Seq = 1000, Ack = 1001,
             FIN = False, SYN = False, RST = False, PSH = False, ACK = False,
             URG = False, ECE = False, CWR = False, NS = False,
             Window = 12580, Options = [], Padding = [], Payload = []\<rparr>\<rparr>"
  have f: "\<not> SYN ?t" "PSH ?t" "ACK ?t" "Seq ?t = 2000" "Payload ?t = ''hello''" "hseqn ex_dialled = 7777"
    by (simp_all add: data_seg_def ex_dialled_def)
  have H1: "readLayers ex_dialled [Captured (from_server ?t)] = Some (Inr ?cl, [])
      \<and> \<not> SYN (tcp ?cl) \<and> PSH (tcp ?cl) \<and> ACK (tcp ?cl) \<and> Seq (tcp ?cl) \<noteq> hseqn ex_dialled
      \<and> deref ex_dialled = Some (0, ?l) \<and> length ''..'' < length (Payload (tcp ?cl))"
    by (simp add: readLayers_from_server ex_dialled_deref f del: readLayers.simps)
  have H2: "readLayers ?L [Captured (from_peer ?u)] = Some (Inr ?cu, [])
      \<and> \<not> RST (tcp ?cu) \<and> \<not> FIN (tcp ?cu)
      \<and> conns ?L (UDPAddr_String \<lparr>IP_of = SrcIP (ip4 ?cu), Port = unat (SrcPort (tcp ?cu))\<rparr>)
          = Some (ex_info established)
      \<and> c_state (ex_info established) = established
      \<and> heap ?L (c_layer (ex_info established)) = Some ex_template
      \<and> length ''..'' < length (Payload (tcp ?cu))"
    by (simp add: from_peer_def ex_listener_def ex_raw_def data_seg_def peer_addr_string ex_info_def)
  note T = short_buffer_read [where conn = ex_dialled and evs = "[Captured (from_server ?t)]"
             and cl = ?cl and rest = "[]" and p = 0 and l = ?l and b = "''..''"]
  note U = short_buffer_read [where listener = ?L and evs = "[Captured (from_peer ?u)]"
             and cl = ?cu and rest = "[]" and info = "ex_info established" and tmpl = ex_template
             and hrep = "[]" and b = "''..''"]
  have u: "udp ex_dialled" by (simp add: ex_dialled_def ex_conn_def newRAWConn_def set_tcp_def deref_def)
  have hL: "heap (?L\<lparr>layer := None\<rparr>) (c_layer (ex_info established)) = Some ex_template"
    by (simp add: ex_listener_def ex_info_def)
  have tl: "tmpl_ack (set_info_tcp g (ex_info established) (?L\<lparr>layer := None\<rparr>)) 0
            = Some (Ack (g (tcp ex_template)))" for g
    using tmpl_ack_set_info_tcp [OF hL, of g] by (simp add: ex_info_def)
  have v: "Seq ?u = 1001" "Payload ?u = ''hello''" "SrcPort ?u = 4000" "Ack (tcp ex_template) = 1001"
    by (simp_all add: data_seg_def ex_template_def)
  from T [THEN conjunct1, THEN mp, OF H1] U [THEN conjunct2, THEN mp, OF H2]
  show ?thesis
    by (simp add: f u v result_of_def ack_after_def tmpl_ack_rtimer tmpl_ack_set_tcp [OF ex_dialled_deref] tl)
qed

lemma ReadFrom_body_filtered:
  assumes "PSH (tcp cl)" "ACK (tcp cl)" "Seq (tcp cl) = hseqn conn"
  shows "ReadFrom_body conn b cl =
           (if SYN (tcp cl)
            then (case sendAck conn of
                    (Some e, c) \<Rightarrow> (Some \<lparr>n_of = 0, addr_of = None, err_of = Some e, buf_of = b\<rparr>, c)
                  | (None, c) \<Rightarrow> (None, c))
            else (None, conn))"
  using assms by (simp add: ReadFrom_body_def Let_def)

text \<open>
  Claim C6. A captured segment with PSH and ACK whose sequence number equals
  \<open>conn.hseqn\<close> never delivers its payload: the loop body of \<open>RAWConn.ReadFrom\<close>
  either continues or (when SYN is set as well and the ACK it answers with cannot
  be sent) returns that error with \<open>n = 0\<close> and the buffer untouched; for a segment
  without SYN the read behaves exactly as if the segment had not been captured.
\<close>

theorem duplicate_filtered:
  assumes "tcpLayer pkt = Some t" and "PSH t" and "ACK t" and "Seq t = hseqn conn"
  shows "(\<forall>cl. tcp cl = t \<longrightarrow>
            (case fst (ReadFrom_body conn b cl) of
               None \<Rightarrow> True
             | Some res \<Rightarrow> n_of res = 0 \<and> buf_of res = b \<and> err_of res \<noteq> None))
         \<and> (\<not> SYN t \<longrightarrow> ReadFrom conn b (Captured pkt # evs) = ReadFrom conn b evs)"
proof (intro conjI allI impI)
  fix cl :: pktLayers
  assume "tcp cl = t"
  with assms have "PSH (tcp cl)" "ACK (tcp cl)" "Seq (tcp cl) = hseqn conn" by simp_all
  from ReadFrom_body_filtered [OF this, of b]
  show "case fst (ReadFrom_body conn b cl) of
               None \<Rightarrow> True
             | Some res \<Rightarrow> n_of res = 0 \<and> buf_of res = b \<and> err_of res \<noteq> None"
    by (auto split: prod.splits option.splits)
next
  assume ns: "\<not> SYN t"
  have body: "ReadFrom_body conn b \<lparr>eth = e, ip4 = i, tcp = t\<rparr> = (None, conn)" for e i
    using ReadFrom_body_filtered [of "\<lparr>eth = e, ip4 = i, tcp = t\<rparr>" conn b] assms ns by simp
  have "ReadFrom_loop conn b (Captured pkt # evs) = ReadFrom_loop conn b evs"
  proof (cases "(ethLayer pkt = None \<and> \<not> loopLayer pkt) \<or> ipLayer pkt = None \<or> (IgnRST (r_raw conn) \<and> RST t)")
    case True
    then have "readLayers conn (Captured pkt # evs) = readLayers conn evs"
      using assms(1) by (auto split: option.splits)
    then show ?thesis
      by (subst ReadFrom_loop.simps, subst (2) ReadFrom_loop.simps) simp
  next
    case False
    then obtain i where i: "ipLayer pkt = Some i" by auto
    from False i assms(1)
    have "readLayers conn (Captured pkt # evs) = Some (Inr \<lparr>eth = ethLayer pkt, ip4 = i, tcp = t\<rparr>, evs)"
      by auto
    then show ?thesis
      by (subst ReadFrom_loop.simps) (simp add: body)
  qed
  then show "ReadFrom conn b (Captured pkt # evs) = ReadFrom conn b evs"
    by (simp add: ReadFrom_def)
qed

theorem duplicate_filtered_witness:
  "tcpLayer (from_server (data_seg 80 4000 7777 ''HTTP/1.1 200 OK'')) = Some (data_seg 80 4000 7777 ''HTTP/1.1 200 OK'')
   \<and> PSH (data_seg 80 4000 7777 ''HTTP/1.1 200 OK'') \<and> ACK (data_seg 80 4000 7777 ''HTTP/1.1 200 OK'')
   \<and> Seq (data_seg 80 4000 7777 ''HTTP/1.1 200 OK'') = hseqn ex_dialled
   \<and> result_of (ReadFrom ex_dialled ''....''
        [Captured (from_server (data_seg 80 4000 7777 ''HTTP/1.1 200 OK'')),
         Captured (from_server (data_seg 80 4000 7792 ''data''))])
      = Some \<lparr>n_of = 4, addr_of = Some \<lparr>IP_of = IPv4 10 0 0 2, Port = 80\<rparr>, err_of = None,
               buf_of = ''data''\<rparr>"
proof -
  let ?t = "data_seg 80 4000 7777 ''HTTP/1.1 200 OK''"
  let ?u = "data_seg 80 4000 7792 ''data''"
  let ?cu = "\<lparr>eth = None, ip4 = \<lparr>SrcIP = IPv4 10 0 0 2, DstIP = IPv4 10 0 0 1, Protocol = 6,
                                   Version = 4, IPId = 1, Flags = 2, TTL = 0x40, TOS = 0\<rparr>, tcp = ?u\<rparr>"
  have h: "tcpLayer (from_server ?t) = Some ?t" "PSH ?t" "ACK ?t" "Seq ?t = hseqn ex_dialled"
    by (simp_all add: from_server_def data_seg_def ex_dialled_def)
  have ns: "\<not> SYN ?t" by (simp add: data_seg_def)
  have f: "\<not> SYN (tcp ?cu)" "PSH (tcp ?cu)" "ACK (tcp ?cu)" "Seq (tcp ?cu) \<noteq> hseqn ex_dialled"
          "Payload (tcp ?cu) \<noteq> []"
    by (simp_all add: data_seg_def ex_dialled_def)
  have u: "udp ex_dialled" by (simp add: ex_dialled_def ex_conn_def newRAWConn_def set_tcp_def deref_def)
  have "result_of (ReadFrom ex_dialled ''....'' [Captured (from_server ?u)])
        = Some \<lparr>n_of = 4, addr_of = Some \<lparr>IP_of = IPv4 10 0 0 2, Port = 80\<rparr>, err_of = None,
               buf_of = ''data''\<rparr>"
  proof -
    have r: "readLayers ex_dialled [Captured (from_server ?u)] = Some (Inr ?cu, [])"
      by (rule readLayers_from_server)
    from ReadFrom_accept [OF r f(1-4) ex_dialled_deref f(5), of "''....''"] show ?thesis
      by (simp add: result_of_def u data_seg_def)
  qed
  with duplicate_filtered [OF h, of "''....''" "[Captured (from_server ?u)]"] h ns
  show ?thesis by simp
qed

section \<open>The listener\<close>

text \<open>A SYN from a peer in neither table.\<close>

lemma listen_unknown_syn:
  assumes "SYN (tcp cl)" "\<not> ACK (tcp cl)" "\<not> PSH (tcp cl)" "\<not> FIN (tcp cl)"
      and "getMssFromTcpLayer (tcp cl) = Inr m" and "layer lst = None"
  shows "listen_unknown lst b cl a =
     (let p = nextp lst;
          tmpl = \<lparr>eth = eth (reply_layer lst cl), ip4 = ip4 (reply_layer lst cl),
                  tcp = (tcp (reply_layer lst cl))\<lparr>Seq := randSeq lst p\<rparr>\<rparr>;
          info = \<lparr>c_state = synreceived, c_layer = p, c_rep = None, c_hseqn = 0, c_mss = m\<rparr>;
          c = after_send (lst\<lparr>layer := Some p, heap := (heap lst)(p \<mapsto> tmpl), nextp := p + 1\<rparr>) p tmpl
                (sent_tcp SynAck (tcp tmpl)) (kept_tcp SynAck (tcp tmpl))
      in case inject lst (sends lst) of
           Some e \<Rightarrow> (Some (rd_error (length (Payload (tcp cl))) a e b), c)
         | None \<Rightarrow> (None, c\<lparr>newcons := (newcons c)(UDPAddr_String a \<mapsto> info)\<rparr>))"
proof -
  let ?p = "nextp lst"
  let ?l1 = "lst\<lparr>heap := (heap lst)(?p \<mapsto> reply_layer lst cl), nextp := Suc ?p\<rparr>"
  let ?info = "\<lparr>c_state = synreceived, c_layer = ?p, c_rep = None, c_hseqn = 0, c_mss = m\<rparr>"
  let ?tmpl = "\<lparr>eth = eth (reply_layer lst cl), ip4 = ip4 (reply_layer lst cl),
                  tcp = (tcp (reply_layer lst cl))\<lparr>Seq := randSeq lst ?p\<rparr>\<rparr>"
  have h1: "heap ?l1 (c_layer ?info) = Some (reply_layer lst cl)" by simp
  have rs: "randSeq ?l1 = randSeq lst" by simp
  have l2: "set_info_tcp (\<lambda>x. x\<lparr>Seq := randSeq lst ?p\<rparr>) ?info ?l1
            = lst\<lparr>heap := (heap lst)(?p \<mapsto> ?tmpl), nextp := Suc ?p\<rparr>"
    by (subst set_info_tcp_eq [OF h1]) simp
  let ?c = "lst\<lparr>layer := Some ?p, heap := (heap lst)(?p \<mapsto> ?tmpl), nextp := Suc ?p\<rparr>"
  have d: "deref ?c = Some (?p, ?tmpl)" by (simp add: deref_Some)
  have s: "sendSynAck ?c = (inject lst (sends lst),
             after_send ?c ?p ?tmpl (sent_tcp SynAck (tcp ?tmpl)) (kept_tcp SynAck (tcp ?tmpl)))"
    using sendSynAck_eq [OF d] by simp
  have eq: "(lst\<lparr>heap := (heap lst)(?p \<mapsto> ?tmpl), nextp := Suc ?p\<rparr>)\<lparr>layer := Some ?p\<rparr> = ?c"
    by simp
  show ?thesis
    using assms(1-5)
    by (cases "inject lst (sends lst)")
       (simp_all add: listen_unknown_def Let_def l2 eq s del: sent_tcp.simps kept_tcp.simps)
qed

lemma listen_body_unknown_syn:
  assumes "SYN (tcp cl)" "\<not> ACK (tcp cl)" "\<not> PSH (tcp cl)" "\<not> FIN (tcp cl)" "\<not> RST (tcp cl)"
      and "getMssFromTcpLayer (tcp cl) = Inr m"
      and "conns lst (UDPAddr_String \<lparr>IP_of = SrcIP (ip4 cl), Port = unat (SrcPort (tcp cl))\<rparr>) = None"
      and "newcons lst (UDPAddr_String \<lparr>IP_of = SrcIP (ip4 cl), Port = unat (SrcPort (tcp cl))\<rparr>) = None"
      and "inject lst (sends lst) = None"
  shows "fst (listen_body hrep lst b k cl) = None"
    and "newcons (snd (snd (listen_body hrep lst b k cl)))
           (UDPAddr_String \<lparr>IP_of = SrcIP (ip4 cl), Port = unat (SrcPort (tcp cl))\<rparr>)
         = Some \<lparr>c_state = synreceived, c_layer = nextp lst, c_rep = None, c_hseqn = 0, c_mss = m\<rparr>"
    and "conns (snd (snd (listen_body hrep lst b k cl))) = conns lst"
proof -
  let ?a = "\<lparr>IP_of = SrcIP (ip4 cl), Port = unat (SrcPort (tcp cl))\<rparr>"
  let ?l0 = "lst\<lparr>layer := None\<rparr>"
  have i: "inject ?l0 (sends ?l0) = None" using assms(9) by simp
  have u: "listen_body hrep lst b k cl
           = (case listen_unknown ?l0 b cl ?a of (res, l) \<Rightarrow> (res, length (Payload (tcp cl)), l))"
    using assms(1-5,7,8) by (simp add: listen_body_def Let_def)
  note un = listen_unknown_syn [OF assms(1-4,6), of ?l0 b ?a, simplified Let_def i option.case]
  show "fst (listen_body hrep lst b k cl) = None"
    by (simp add: u un)
  show "newcons (snd (snd (listen_body hrep lst b k cl))) (UDPAddr_String ?a)
         = Some \<lparr>c_state = synreceived, c_layer = nextp lst, c_rep = None, c_hseqn = 0, c_mss = m\<rparr>"
    by (simp add: u un)
  show "conns (snd (snd (listen_body hrep lst b k cl))) = conns lst"
    by (simp add: u un after_send_def)
qed

text \<open>
  Claim C10. \<open>GetMSSByAddr\<close> looks the address up in \<open>conns\<close> only: it returns 0
  for an address that is not a key of \<open>conns\<close>, and for one whose record has an MSS
  that is not positive. In particular, after the SYN of a new peer has been
  answered, the peer's record in \<open>newcons\<close> holds the MSS of the SYN's options and
  \<open>GetMSSByAddr\<close> still returns 0 for the peer.
\<close>

theorem GetMSSByAddr_before_promotion:
  "(conns lst addr = None \<longrightarrow> GetMSSByAddr lst addr = 0)
   \<and> (conns lst addr = Some info \<and> c_mss info \<le> 0 \<longrightarrow> GetMSSByAddr lst addr = 0)
   \<and> (SYN (tcp cl) \<and> \<not> ACK (tcp cl) \<and> \<not> PSH (tcp cl) \<and> \<not> FIN (tcp cl) \<and> \<not> RST (tcp cl)
       \<and> getMssFromTcpLayer (tcp cl) = Inr m
       \<and> addr = UDPAddr_String \<lparr>IP_of = SrcIP (ip4 cl), Port = unat (SrcPort (tcp cl))\<rparr>
       \<and> conns lst addr = None \<and> newcons lst addr = None \<and> inject lst (sends lst) = None \<longrightarrow>
         fst (listen_body hrep lst b k cl) = None
       \<and> newcons (snd (snd (listen_body hrep lst b k cl))) addr
           = Some \<lparr>c_state = synreceived, c_layer = nextp lst, c_rep = None, c_hseqn = 0, c_mss = m\<rparr>
       \<and> GetMSSByAddr (snd (snd (listen_body hrep lst b k cl))) addr = 0)"
proof (intro conjI impI)
  assume "conns lst addr = None"
  then show "GetMSSByAddr lst addr = 0" by (simp add: GetMSSByAddr_def)
next
  assume "conns lst addr = Some info \<and> c_mss info \<le> 0"
  then show "GetMSSByAddr lst addr = 0" by (simp add: GetMSSByAddr_def)
next
  assume a: "SYN (tcp cl) \<and> \<not> ACK (tcp cl) \<and> \<not> PSH (tcp cl) \<and> \<not> FIN (tcp cl) \<and> \<not> RST (tcp cl)
       \<and> getMssFromTcpLayer (tcp cl) = Inr m
       \<and> addr = UDPAddr_String \<lparr>IP_of = SrcIP (ip4 cl), Port = unat (SrcPort (tcp cl))\<rparr>
       \<and> conns lst addr = None \<and> newcons lst addr = None \<and> inject lst (sends lst) = None"
  then have f: "SYN (tcp cl)" "\<not> ACK (tcp cl)" "\<not> PSH (tcp cl)" "\<not> FIN (tcp cl)" "\<not> RST (tcp cl)"
      "getMssFromTcpLayer (tcp cl) = Inr m"
      "conns lst (UDPAddr_String \<lparr>IP_of = SrcIP (ip4 cl), Port = unat (SrcPort (tcp cl))\<rparr>) = None"
      "newcons lst (UDPAddr_String \<lparr>IP_of = SrcIP (ip4 cl), Port = unat (SrcPort (tcp cl))\<rparr>) = None"
      "inject lst (sends lst) = None"
    and ad: "addr = UDPAddr_String \<lparr>IP_of = SrcIP (ip4 cl), Port = unat (SrcPort (tcp cl))\<rparr>"
    by blast+
  note r = listen_body_unknown_syn [OF f, of hrep b k]
  show "fst (listen_body hrep lst b k cl) = None" by (rule r(1))
  show "newcons (snd (snd (listen_body hrep lst b k cl))) addr
           = Some \<lparr>c_state = synreceived, c_layer = nextp lst, c_rep = None, c_hseqn = 0, c_mss = m\<rparr>"
    unfolding ad by (rule r(2))
  show "GetMSSByAddr (snd (snd (listen_body hrep lst b k cl))) addr = 0"
    using f(7) by (simp add: GetMSSByAddr_def r(3) ad)
qed

theorem GetMSSByAddr_before_promotion_witness:
  "GetMSSByAddr (ex_listener send_ok [''10.0.0.1:4000'' \<mapsto> ex_info waithttpreq] Map.empty) ''10.0.0.1:4000'' = 0
   \<and> c_mss (ex_info waithttpreq) = 1460
   \<and> GetMSSByAddr (ex_listener send_ok Map.empty [''10.0.0.1:4000'' \<mapsto> (ex_info established)\<lparr>c_mss := 0\<rparr>])
        ''10.0.0.1:4000'' = 0
   \<and> newcons (snd (snd (listen_body [] (ex_listener send_ok Map.empty Map.empty) [] 0
          \<lparr>eth = None, ip4 = \<lparr>SrcIP = IPv4 10 0 0 1, DstIP = IPv4 10 0 0 2, Protocol = 6,
                               Version = 4, IPId = 1, Flags = 2, TTL = 0x40, TOS = 0\<rparr>,
            tcp = syn_seg 4000 80 1000 [mss_1400]\<rparr>))) ''10.0.0.1:4000''
       = Some \<lparr>c_state = synreceived, c_layer = 1, c_rep = None, c_hseqn = 0, c_mss = 1400\<rparr>
   \<and> GetMSSByAddr (snd (snd (listen_body [] (ex_listener send_ok Map.empty Map.empty) [] 0
          \<lparr>eth = None, ip4 = \<lparr>SrcIP = IPv4 10 0 0 1, DstIP = IPv4 10 0 0 2, Protocol = 6,
                               Version = 4, IPId = 1, Flags = 2, TTL = 0x40, TOS = 0\<rparr>,
            tcp = syn_seg 4000 80 1000 [mss_1400]\<rparr>))) ''10.0.0.1:4000'' = 0"
proof -
  let ?A = "ex_listener send_ok [''10.0.0.1:4000'' \<mapsto> ex_info waithttpreq] Map.empty"
  let ?B = "ex_listener send_ok Map.empty [''10.0.0.1:4000'' \<mapsto> (ex_info established)\<lparr>c_mss := 0\<rparr>]"
  let ?C = "ex_listener send_ok Map.empty Map.empty"
  let ?cl = "\<lparr>eth = None, ip4 = \<lparr>SrcIP = IPv4 10 0 0 1, DstIP = IPv4 10 0 0 2, Protocol = 6,
                               Version = 4, IPId = 1, Flags = 2, TTL = 0x40, TOS = 0\<rparr>,
            tcp = syn_seg 4000 80 1000 [mss_1400]\<rparr>"
  have HA: "conns ?A ''10.0.0.1:4000'' = None" by (simp add: ex_listener_def)
  have HB: "conns ?B ''10.0.0.1:4000'' = Some ((ex_info established)\<lparr>c_mss := 0\<rparr>)
            \<and> c_mss ((ex_info established)\<lparr>c_mss := 0\<rparr>) \<le> 0"
    by (simp add: ex_listener_def)
  have HC: "SYN (tcp ?cl) \<and> \<not> ACK (tcp ?cl) \<and> \<not> PSH (tcp ?cl) \<and> \<not> FIN (tcp ?cl) \<and> \<not> RST (tcp ?cl)
       \<and> getMssFromTcpLayer (tcp ?cl) = Inr 1400
       \<and> ''10.0.0.1:4000'' = UDPAddr_String \<lparr>IP_of = SrcIP (ip4 ?cl), Port = unat (SrcPort (tcp ?cl))\<rparr>
       \<and> conns ?C ''10.0.0.1:4000'' = None \<and> newcons ?C ''10.0.0.1:4000'' = None
       \<and> inject ?C (sends ?C) = None"
    by (simp add: syn_seg_def mss_1400_def getMssFromTcpLayer_def peer_addr_string ex_listener_def send_ok_def)
  note TA = GetMSSByAddr_before_promotion [where lst = ?A and addr = "''10.0.0.1:4000''", THEN conjunct1, THEN mp, OF HA]
  note TB = GetMSSByAddr_before_promotion [where lst = ?B and addr = "''10.0.0.1:4000''"
              and info = "(ex_info established)\<lparr>c_mss := 0\<rparr>", THEN conjunct2, THEN conjunct1, THEN mp, OF HB]
  note TC = GetMSSByAddr_before_promotion [where lst = ?C and addr = "''10.0.0.1:4000''" and cl = ?cl
              and m = 1400 and hrep = "[]" and b = "[]" and k = 0, THEN conjunct2, THEN conjunct2, THEN mp, OF HC]
  have n: "nextp ?C = 1" "c_mss (ex_info waithttpreq) = 1460" by (simp_all add: ex_listener_def ex_info_def)
  from TA TB TC show ?thesis
    by (simp add: n)
qed

text \<open>A segment with PSH and ACK for a flow that waits for the HTTP request.\<close>

lemma listen_newcons_waithttpreq:
  assumes "c_state info = waithttpreq" and "PSH (tcp cl)" and "ACK (tcp cl)"
      and "heap lst (c_layer info) = Some tmpl"
  shows "listen_newcons hrep lst b cl a info =
     (if length (Payload (tcp cl)) > 20 \<and> is_POST (Payload (tcp cl)) then
        (let n = length (Payload (tcp cl));
             rp = (case c_rep info of None \<Rightarrow> hrep | Some x \<Rightarrow> x);
             tm = \<lparr>eth = eth tmpl, ip4 = ip4 tmpl, tcp = (tcp tmpl)\<lparr>Ack := Ack (tcp tmpl) + of_nat n\<rparr>\<rparr>;
             c = after_send (lst\<lparr>layer := Some (c_layer info), heap := (heap lst)(c_layer info \<mapsto> tm)\<rparr>)
                   (c_layer info) tm (sent_tcp (Data rp) (tcp tm)) (kept_tcp (Data rp) (tcp tm));
             info1 = info\<lparr>c_rep := Some rp, c_hseqn := Seq (tcp cl)\<rparr>
         in case inject lst (sends lst) of
              Some e \<Rightarrow> (Some (rd_error n a e b), c\<lparr>newcons := (newcons c)(UDPAddr_String a \<mapsto> info1)\<rparr>)
            | None \<Rightarrow> (None, c\<lparr>conns := (conns c)(UDPAddr_String a \<mapsto> info1\<lparr>c_state := httprepsent\<rparr>),
                               newcons := (newcons c)(UDPAddr_String a := None)\<rparr>))
      else (None, lst))"
proof (cases "length (Payload (tcp cl)) > 20 \<and> is_POST (Payload (tcp cl))")
  case False
  then show ?thesis
    using assms(1-3) by (auto simp: listen_newcons_def Let_def)
next
  case True
  let ?n = "length (Payload (tcp cl))"
  let ?rp = "case c_rep info of None \<Rightarrow> hrep | Some x \<Rightarrow> x"
  let ?tm = "\<lparr>eth = eth tmpl, ip4 = ip4 tmpl, tcp = (tcp tmpl)\<lparr>Ack := Ack (tcp tmpl) + of_nat ?n\<rparr>\<rparr>"
  let ?c = "lst\<lparr>layer := Some (c_layer info), heap := (heap lst)(c_layer info \<mapsto> ?tm)\<rparr>"
  have l1: "set_info_tcp (\<lambda>x. x\<lparr>Ack := Ack x + of_nat ?n\<rparr>) info lst
            = lst\<lparr>heap := (heap lst)(c_layer info \<mapsto> ?tm)\<rparr>"
    by (subst set_info_tcp_eq [OF assms(4)]) simp
  have eq: "(lst\<lparr>heap := (heap lst)(c_layer info \<mapsto> ?tm)\<rparr>)\<lparr>layer := Some (c_layer info)\<rparr> = ?c"
    by simp
  have d: "deref ?c = Some (c_layer info, ?tm)" by (simp add: deref_Some)
  have w: "write_seg ?c ?rp = ((length ?rp, inject lst (sends lst)),
             after_send ?c (c_layer info) ?tm (sent_tcp (Data ?rp) (tcp ?tm)) (kept_tcp (Data ?rp) (tcp ?tm)))"
    using write_seg_eq [OF d, of ?rp] by simp
  show ?thesis
    using True assms
    by (cases "inject lst (sends lst)")
       (simp_all add: listen_newcons_def Let_def l1 eq w del: sent_tcp.simps kept_tcp.simps)
qed

lemma listen_body_waithttpreq:
  assumes "newcons lst (UDPAddr_String \<lparr>IP_of = SrcIP (ip4 cl), Port = unat (SrcPort (tcp cl))\<rparr>) = Some info"
      and "conns lst (UDPAddr_String \<lparr>IP_of = SrcIP (ip4 cl), Port = unat (SrcPort (tcp cl))\<rparr>) = None"
      and "c_state info = waithttpreq" and "heap lst (c_layer info) = Some tmpl"
      and "PSH (tcp cl)" and "ACK (tcp cl)" and "\<not> RST (tcp cl)" and "\<not> FIN (tcp cl)"
  shows "listen_body hrep lst b k cl =
     (case listen_newcons hrep (lst\<lparr>layer := None\<rparr>) b cl
             \<lparr>IP_of = SrcIP (ip4 cl), Port = unat (SrcPort (tcp cl))\<rparr> info of
        (res, l) \<Rightarrow> (res, length (Payload (tcp cl)), l))"
  using assms by (simp add: listen_body_def Let_def)

lemma peer_layers_simps:
  "tcp (peer_layers t) = t"
  "UDPAddr_String \<lparr>IP_of = SrcIP (ip4 (peer_layers (data_seg 4000 80 sq pl))),
                   Port = unat (SrcPort (tcp (peer_layers (data_seg 4000 80 sq pl))))\<rparr> = ''10.0.0.1:4000''"
  using peer_addr_string by (simp_all add: peer_layers_def data_seg_def)

lemma data_seg_simps:
  "PSH (data_seg sp dp sq pl)" "ACK (data_seg sp dp sq pl)" "\<not> RST (data_seg sp dp sq pl)"
  "\<not> FIN (data_seg sp dp sq pl)" "\<not> SYN (data_seg sp dp sq pl)"
  "Seq (data_seg sp dp sq pl) = sq" "Payload (data_seg sp dp sq pl) = pl"
  by (simp_all add: data_seg_def)

lemma post_shapes:
  "length post20 = 20" "is_POST post20" "length post21 = 21" "is_POST post21"
  by (simp_all add: post20_def post21_def is_POST_def CRLFCRLF_def)

text \<open>
  Claim C3, as the code has it. For a flow of \<open>newcons\<close> in the state
  \<open>waithttpreq\<close> and a captured segment with PSH and ACK (and neither RST nor FIN):
  when the payload is longer than 20 bytes, starts with \<open>POST\<close> and ends with
  CRLF CRLF, the listener records the sequence number of the request, sends the
  decoy response with PSH and ACK and, if the send succeeds, stores the flow in
  \<open>conns\<close> in the state \<open>httprepsent\<close> and removes it from \<open>newcons\<close>; if the send
  fails, the read returns the error and the flow stays in \<open>newcons\<close> in
  \<open>waithttpreq\<close>. When the payload fails the test on length, prefix and suffix,
  nothing is sent and nothing changes. Nothing else of the payload is looked at.
\<close>

theorem http_request_heuristic:
  assumes "newcons lst addr = Some info" and "conns lst addr = None"
      and "addr = UDPAddr_String \<lparr>IP_of = SrcIP (ip4 cl), Port = unat (SrcPort (tcp cl))\<rparr>"
      and "c_state info = waithttpreq" and "heap lst (c_layer info) = Some tmpl"
      and "PSH (tcp cl)" and "ACK (tcp cl)" and "\<not> RST (tcp cl)" and "\<not> FIN (tcp cl)"
  shows "(length (Payload (tcp cl)) > 20 \<and> is_POST (Payload (tcp cl)) \<and> inject lst (sends lst) = None \<longrightarrow>
            fst (listen_body hrep lst b k cl) = None
          \<and> conns (snd (snd (listen_body hrep lst b k cl))) addr
              = Some (info\<lparr>c_rep := Some (case c_rep info of None \<Rightarrow> hrep | Some x \<Rightarrow> x),
                           c_hseqn := Seq (tcp cl), c_state := httprepsent\<rparr>)
          \<and> newcons (snd (snd (listen_body hrep lst b k cl))) addr = None
          \<and> trace (snd (snd (listen_body hrep lst b k cl)))
              = trace lst @ [Injected \<lparr>eth = eth tmpl, ip4 = sent_ip tmpl,
                   tcp = (cleared ((tcp tmpl)\<lparr>Ack := Ack (tcp tmpl) + of_nat (length (Payload (tcp cl)))\<rparr>))
                           \<lparr>PSH := True, ACK := True,
                            Payload := (case c_rep info of None \<Rightarrow> hrep | Some x \<Rightarrow> x)\<rparr>\<rparr>])
       \<and> (length (Payload (tcp cl)) > 20 \<and> is_POST (Payload (tcp cl)) \<and> inject lst (sends lst) = Some e \<longrightarrow>
            fst (listen_body hrep lst b k cl)
              = Some (rd_error (length (Payload (tcp cl)))
                        \<lparr>IP_of = SrcIP (ip4 cl), Port = unat (SrcPort (tcp cl))\<rparr> e b)
          \<and> newcons (snd (snd (listen_body hrep lst b k cl))) addr
              = Some (info\<lparr>c_rep := Some (case c_rep info of None \<Rightarrow> hrep | Some x \<Rightarrow> x),
                           c_hseqn := Seq (tcp cl)\<rparr>)
          \<and> conns (snd (snd (listen_body hrep lst b k cl))) addr = None
          \<and> trace (snd (snd (listen_body hrep lst b k cl))) = trace lst)
       \<and> (\<not> (length (Payload (tcp cl)) > 20 \<and> is_POST (Payload (tcp cl))) \<longrightarrow>
            listen_body hrep lst b k cl = (None, length (Payload (tcp cl)), lst\<lparr>layer := None\<rparr>))"
proof -
  let ?a = "\<lparr>IP_of = SrcIP (ip4 cl), Port = unat (SrcPort (tcp cl))\<rparr>"
  have nc: "newcons lst (UDPAddr_String ?a) = Some info" and cs: "conns lst (UDPAddr_String ?a) = None"
    using assms(1-3) by simp_all
  have h: "heap (lst\<lparr>layer := None\<rparr>) (c_layer info) = Some tmpl" using assms(5) by simp
  note B = listen_body_waithttpreq [OF nc cs assms(4,5,6,7,8,9), of hrep b k]
  note N = listen_newcons_waithttpreq [OF assms(4,6,7) h, of hrep b ?a]
  have si: "sent_ip \<lparr>eth = eth tmpl, ip4 = ip4 tmpl, tcp = t\<rparr> = sent_ip tmpl" for t
    by (simp add: sent_ip_def)
  show ?thesis
  proof (intro conjI impI)
    assume a: "length (Payload (tcp cl)) > 20 \<and> is_POST (Payload (tcp cl)) \<and> inject lst (sends lst) = None"
    then have R: "listen_body hrep lst b k cl = (None, length (Payload (tcp cl)),
        (let n = length (Payload (tcp cl));
             rp = (case c_rep info of None \<Rightarrow> hrep | Some x \<Rightarrow> x);
             tm = \<lparr>eth = eth tmpl, ip4 = ip4 tmpl, tcp = (tcp tmpl)\<lparr>Ack := Ack (tcp tmpl) + of_nat n\<rparr>\<rparr>;
             c = after_send (lst\<lparr>layer := Some (c_layer info), heap := (heap lst)(c_layer info \<mapsto> tm)\<rparr>)
                   (c_layer info) tm (sent_tcp (Data rp) (tcp tm)) (kept_tcp (Data rp) (tcp tm));
             info1 = info\<lparr>c_rep := Some rp, c_hseqn := Seq (tcp cl)\<rparr>
         in c\<lparr>conns := (conns c)(UDPAddr_String ?a \<mapsto> info1\<lparr>c_state := httprepsent\<rparr>),
               newcons := (newcons c)(UDPAddr_String ?a := None)\<rparr>))"
      by (simp add: B N Let_def del: sent_tcp.simps kept_tcp.simps)
    show "fst (listen_body hrep lst b k cl) = None" by (simp add: R)
    show "conns (snd (snd (listen_body hrep lst b k cl))) addr
              = Some (info\<lparr>c_rep := Some (case c_rep info of None \<Rightarrow> hrep | Some x \<Rightarrow> x),
                           c_hseqn := Seq (tcp cl), c_state := httprepsent\<rparr>)"
      by (simp add: R Let_def assms(3) del: sent_tcp.simps kept_tcp.simps)
    show "newcons (snd (snd (listen_body hrep lst b k cl))) addr = None"
      by (simp add: R Let_def assms(3) del: sent_tcp.simps kept_tcp.simps)
    show "trace (snd (snd (listen_body hrep lst b k cl)))
              = trace lst @ [Injected \<lparr>eth = eth tmpl, ip4 = sent_ip tmpl,
                   tcp = (cleared ((tcp tmpl)\<lparr>Ack := Ack (tcp tmpl) + of_nat (length (Payload (tcp cl)))\<rparr>))
                           \<lparr>PSH := True, ACK := True,
                            Payload := (case c_rep info of None \<Rightarrow> hrep | Some x \<Rightarrow> x)\<rparr>\<rparr>]"
      using a by (simp add: R Let_def trace_after_send emitted_def si)
  next
    assume a: "length (Payload (tcp cl)) > 20 \<and> is_POST (Payload (tcp cl)) \<and> inject lst (sends lst) = Some e"
    then have R: "listen_body hrep lst b k cl = (Some (rd_error (length (Payload (tcp cl))) ?a e b),
        length (Payload (tcp cl)),
        (let n = length (Payload (tcp cl));
             rp = (case c_rep info of None \<Rightarrow> hrep | Some x \<Rightarrow> x);
             tm = \<lparr>eth = eth tmpl, ip4 = ip4 tmpl, tcp = (tcp tmpl)\<lparr>Ack := Ack (tcp tmpl) + of_nat n\<rparr>\<rparr>;
             c = after_send (lst\<lparr>layer := Some (c_layer info), heap := (heap lst)(c_layer info \<mapsto> tm)\<rparr>)
                   (c_layer info) tm (sent_tcp (Data rp) (tcp tm)) (kept_tcp (Data rp) (tcp tm));
             info1 = info\<lparr>c_rep := Some rp, c_hseqn := Seq (tcp cl)\<rparr>
         in c\<lparr>newcons := (newcons c)(UDPAddr_String ?a \<mapsto> info1)\<rparr>))"
      by (simp add: B N Let_def del: sent_tcp.simps kept_tcp.simps)
    show "fst (listen_body hrep lst b k cl) = Some (rd_error (length (Payload (tcp cl))) ?a e b)"
      by (simp add: R)
    show "newcons (snd (snd (listen_body hrep lst b k cl))) addr
              = Some (info\<lparr>c_rep := Some (case c_rep info of None \<Rightarrow> hrep | Some x \<Rightarrow> x),
                           c_hseqn := Seq (tcp cl)\<rparr>)"
      by (simp add: R Let_def assms(3) del: sent_tcp.simps kept_tcp.simps)
    show "conns (snd (snd (listen_body hrep lst b k cl))) addr = None"
      using cs by (simp add: R Let_def assms(3) after_send_def del: sent_tcp.simps kept_tcp.simps)
    show "trace (snd (snd (listen_body hrep lst b k cl))) = trace lst"
      using a by (simp add: R Let_def trace_after_send emitted_def)
  next
    assume na: "\<not> (length (Payload (tcp cl)) > 20 \<and> is_POST (Payload (tcp cl)))"
    show "listen_body hrep lst b k cl = (None, length (Payload (tcp cl)), lst\<lparr>layer := None\<rparr>)"
      by (simp only: B N if_not_P [OF na] prod.case)
  qed
qed

theorem http_request_heuristic_witness:
  "fst (listen_body http_rep (ex_listener send_ok [''10.0.0.1:4000'' \<mapsto> ex_info waithttpreq] Map.empty) [] 0
          (peer_layers (data_seg 4000 80 1001 post21))) = None
   \<and> conns (snd (snd (listen_body http_rep (ex_listener send_ok [''10.0.0.1:4000'' \<mapsto> ex_info waithttpreq] Map.empty) [] 0
          (peer_layers (data_seg 4000 80 1001 post21))))) ''10.0.0.1:4000''
       = Some \<lparr>c_state = httprepsent, c_layer = 0, c_rep = Some http_rep, c_hseqn = 1001, c_mss = 1460\<rparr>
   \<and> newcons (snd (snd (listen_body http_rep (ex_listener send_ok [''10.0.0.1:4000'' \<mapsto> ex_info waithttpreq] Map.empty) [] 0
          (peer_layers (data_seg 4000 80 1001 post21))))) ''10.0.0.1:4000'' = None
   \<and> map (\<lambda>s. (flags_of (tcp s), Payload (tcp s)))
         (wire (trace (snd (snd (listen_body http_rep (ex_listener send_ok [''10.0.0.1:4000'' \<mapsto> ex_info waithttpreq] Map.empty) [] 0
          (peer_layers (data_seg 4000 80 1001 post21)))))))
       = [({F_PSH, F_ACK}, http_rep)]
   \<and> fst (listen_body http_rep (ex_listener send_fails [''10.0.0.1:4000'' \<mapsto> ex_info waithttpreq] Map.empty) [] 0
          (peer_layers (data_seg 4000 80 1001 post21)))
       = Some (rd_error 21 \<lparr>IP_of = IPv4 10 0 0 1, Port = 4000\<rparr> (IOErr ''send failed'') [])
   \<and> newcons (snd (snd (listen_body http_rep (ex_listener send_fails [''10.0.0.1:4000'' \<mapsto> ex_info waithttpreq] Map.empty) [] 0
          (peer_layers (data_seg 4000 80 1001 post21))))) ''10.0.0.1:4000''
       = Some \<lparr>c_state = waithttpreq, c_layer = 0, c_rep = Some http_rep, c_hseqn = 1001, c_mss = 1460\<rparr>
   \<and> listen_body http_rep (ex_listener send_ok [''10.0.0.1:4000'' \<mapsto> ex_info waithttpreq] Map.empty) [] 0
        (peer_layers (data_seg 4000 80 1001 post20))
      = (None, 20, ex_listener send_ok [''10.0.0.1:4000'' \<mapsto> ex_info waithttpreq] Map.empty)"
proof -
  let ?L = "ex_listener send_ok [''10.0.0.1:4000'' \<mapsto> ex_info waithttpreq] Map.empty"
  let ?F = "ex_listener send_fails [''10.0.0.1:4000'' \<mapsto> ex_info waithttpreq] Map.empty"
  let ?c1 = "peer_layers (data_seg 4000 80 1001 post21)"
  let ?c0 = "peer_layers (data_seg 4000 80 1001 post20)"
  have ad: "''10.0.0.1:4000'' = UDPAddr_String \<lparr>IP_of = SrcIP (ip4 (peer_layers (data_seg 4000 80 1001 pl))),
                   Port = unat (SrcPort (tcp (peer_layers (data_seg 4000 80 1001 pl))))\<rparr>" for pl
    by (simp add: peer_layers_simps(2))
  have st: "c_state (ex_info waithttpreq) = waithttpreq" by (simp add: ex_info_def)
  have nc: "newcons (ex_listener outc [''10.0.0.1:4000'' \<mapsto> ex_info waithttpreq] Map.empty) ''10.0.0.1:4000''
            = Some (ex_info waithttpreq)"
    and cs: "conns (ex_listener outc [''10.0.0.1:4000'' \<mapsto> ex_info waithttpreq] Map.empty) ''10.0.0.1:4000'' = None"
    and h: "heap (ex_listener outc [''10.0.0.1:4000'' \<mapsto> ex_info waithttpreq] Map.empty)
              (c_layer (ex_info waithttpreq)) = Some ex_template" for outc
    by (simp_all add: ex_listener_fields ex_info_def)
  have f: "PSH (tcp (peer_layers (data_seg 4000 80 1001 pl)))" "ACK (tcp (peer_layers (data_seg 4000 80 1001 pl)))"
          "\<not> RST (tcp (peer_layers (data_seg 4000 80 1001 pl)))" "\<not> FIN (tcp (peer_layers (data_seg 4000 80 1001 pl)))" for pl
    by (simp_all add: peer_layers_simps(1) data_seg_simps)
  note A = http_request_heuristic [OF nc [of send_ok] cs [of send_ok] ad [of post21] st h [of send_ok] f [of post21],
              where hrep = http_rep and b = "[]" and k = 0]
  note B = http_request_heuristic [OF nc [of send_fails] cs [of send_fails] ad [of post21] st h [of send_fails] f [of post21],
              where hrep = http_rep and b = "[]" and k = 0 and e = "IOErr ''send failed''"]
  note C = http_request_heuristic [OF nc [of send_ok] cs [of send_ok] ad [of post20] st h [of send_ok] f [of post20],
              where hrep = http_rep and b = "[]" and k = 0]
  have v: "Payload (tcp (peer_layers (data_seg 4000 80 1001 pl))) = pl"
          "Seq (tcp (peer_layers (data_seg 4000 80 1001 pl))) = 1001" for pl
    by (simp_all add: peer_layers_simps(1) data_seg_simps)
  have w: "SrcIP (ip4 (peer_layers t)) = IPv4 10 0 0 1"
          "SrcPort (tcp (peer_layers (data_seg 4000 80 1001 pl))) = 4000" for t pl
    by (simp_all add: peer_layers_def data_seg_def)
  have i: "inject ?L (sends ?L) = None" "inject ?F (sends ?F) = Some (IOErr ''send failed'')"
          "trace ?L = []" "?L\<lparr>layer := None\<rparr> = ?L"
    by (simp_all add: ex_listener_def send_ok_def send_fails_def)
  have e: "c_rep (ex_info waithttpreq) = None"
    "(ex_info waithttpreq)\<lparr>c_rep := Some http_rep, c_hseqn := 1001, c_state := httprepsent\<rparr>
       = \<lparr>c_state = httprepsent, c_layer = 0, c_rep = Some http_rep, c_hseqn = 1001, c_mss = 1460\<rparr>"
    "(ex_info waithttpreq)\<lparr>c_rep := Some http_rep, c_hseqn := 1001\<rparr>
       = \<lparr>c_state = waithttpreq, c_layer = 0, c_rep = Some http_rep, c_hseqn = 1001, c_mss = 1460\<rparr>"
    by (simp_all add: ex_info_def)
  have u: "flags_of ((cleared t)\<lparr>PSH := True, ACK := True, Payload := x\<rparr>) = {F_PSH, F_ACK}"
    if "unwritten_clear t" for t x
    using flags_sent_tcp [OF that, of "Data x"] by simp
  have uc: "unwritten_clear ((tcp ex_template)\<lparr>Ack := y\<rparr>)" for y
    by (simp add: ex_template_def unwritten_clear_def)
  from A B C show ?thesis
    by (simp add: v w i post_shapes e u [OF uc])
qed

text \<open>
  Claim C3 as stated fails for a payload of exactly 20 bytes: the request
  \<open>POST /index.html\<close> followed by CRLF CRLF starts with \<open>POST\<close> and ends with
  CRLF CRLF, and the listener sends nothing and leaves the flow in \<open>waithttpreq\<close>.
\<close>

theorem request_of_20_bytes_counterexample:
  "length post20 = 20 \<and> take 4 post20 = ''POST'' \<and> drop (length post20 - 4) post20 = CRLFCRLF
   \<and> listen_body http_rep (ex_listener send_ok [''10.0.0.1:4000'' \<mapsto> ex_info waithttpreq] Map.empty) [] 0
        (peer_layers (data_seg 4000 80 1001 post20))
      = (None, 20, ex_listener send_ok [''10.0.0.1:4000'' \<mapsto> ex_info waithttpreq] Map.empty)"
proof -
  let ?L = "ex_listener send_ok [''10.0.0.1:4000'' \<mapsto> ex_info waithttpreq] Map.empty"
  let ?cl = "peer_layers (data_seg 4000 80 1001 post20)"
  let ?a = "\<lparr>IP_of = SrcIP (ip4 ?cl), Port = unat (SrcPort (tcp ?cl))\<rparr>"
  have nc: "newcons ?L (UDPAddr_String ?a) = Some (ex_info waithttpreq)"
    and cs: "conns ?L (UDPAddr_String ?a) = None"
    by (simp_all add: peer_layers_simps(2) ex_listener_fields)
  have st: "c_state (ex_info waithttpreq) = waithttpreq" by (simp add: ex_info_def)
  have h: "heap ?L (c_layer (ex_info waithttpreq)) = Some ex_template"
    by (simp add: ex_info_def ex_listener_fields)
  have h': "heap (?L\<lparr>layer := None\<rparr>) (c_layer (ex_info waithttpreq)) = Some ex_template"
    using h by simp
  have f: "PSH (tcp ?cl)" "ACK (tcp ?cl)" "\<not> RST (tcp ?cl)" "\<not> FIN (tcp ?cl)"
    by (simp_all add: peer_layers_simps(1) data_seg_simps)
  have pl: "Payload (tcp ?cl) = post20" by (simp add: peer_layers_simps(1) data_seg_simps)
  have na: "\<not> (length (Payload (tcp ?cl)) > 20 \<and> is_POST (Payload (tcp ?cl)))"
    by (simp add: pl post_shapes)
  have id: "?L\<lparr>layer := None\<rparr> = ?L" by (simp add: ex_listener_def)
  have "listen_body http_rep ?L [] 0 ?cl = (None, length (Payload (tcp ?cl)), ?L\<lparr>layer := None\<rparr>)"
    by (simp only: listen_body_waithttpreq [OF nc cs st h f]
          listen_newcons_waithttpreq [OF st f(1,2) h'] if_not_P [OF na] prod.case)
  then have "listen_body http_rep ?L [] 0 ?cl = (None, 20, ?L)"
    by (simp only: pl post_shapes id)
  moreover have "take 4 post20 = ''POST'' \<and> drop (length post20 - 4) post20 = CRLFCRLF"
    using post_shapes(2) by (simp add: is_POST_def)
  ultimately show ?thesis by (simp add: post_shapes)
qed

section \<open>The handshake of \<open>DialRAW\<close>\<close>

lemma updateTCP_None: "deref conn = None \<Longrightarrow> updateTCP conn = None"
  by (simp add: updateTCP_def)

lemma run_helper_nil:
  assumes "deref conn = None"
  shows "snd (run_helper h conn) = conn"
  by (cases h)
     (simp_all add: sendSyn_def sendSynAck_def sendAck_def sendFin_def sendRst_def write_seg_def
        updateTCP_None [OF assms])

lemma count_syn_after_send:
  "count_syn (after_send conn p l s k)
   = count_syn conn + (if inject conn (sends conn) = None \<and> SYN s then 1 else 0)"
  by (simp add: count_syn_def trace_after_send wire_append wire_emitted split: option.splits)

lemma count_syn_helper:
  "count_syn (snd (run_helper h conn))
   \<le> count_syn conn + (if h = Syn \<or> h = SynAck then 1 else 0)"
proof (cases "deref conn")
  case None
  then show ?thesis by (simp add: run_helper_nil del: run_helper.simps)
next
  case (Some a)
  then obtain p l where d: "deref conn = Some (p, l)" by (cases a) auto
  show ?thesis
    by (cases h) (simp_all add: run_helper_eq [OF d] count_syn_after_send cleared_def del: run_helper.simps)
qed

lemma count_syn_sendSyn: "sendSyn conn = (x, c) \<Longrightarrow> count_syn c \<le> count_syn conn + 1"
  using count_syn_helper [of Syn conn] by simp

lemma count_syn_sendAck: "sendAck conn = (x, c) \<Longrightarrow> count_syn c \<le> count_syn conn"
  using count_syn_helper [of AckOnly conn] by simp

lemma count_syn_sendFin: "count_syn (snd (sendFin conn)) \<le> count_syn conn"
  using count_syn_helper [of Fin conn] by simp

lemma count_syn_write_seg: "write_seg conn b = (x, c) \<Longrightarrow> count_syn c \<le> count_syn conn"
  using count_syn_helper [of "Data b" conn] by (cases x) simp

lemma count_syn_upd [simp]:
  "count_syn (conn\<lparr>rtimer := r\<rparr>) = count_syn conn"
  "count_syn (conn\<lparr>mss := m\<rparr>) = count_syn conn"
  "count_syn (conn\<lparr>hseqn := h\<rparr>) = count_syn conn"
  "count_syn (conn\<lparr>closed := cl\<rparr>) = count_syn conn"
  "count_syn (set_tcp f conn) = count_syn conn"
  by (simp_all add: count_syn_def set_tcp_def split: option.splits)

declare dial_handshake.simps [simp del] dial_http.simps [simp del]

lemma handshake_syn_bound:
  "6 - retry = k \<Longrightarrow> dial_handshake retry conn evs = Some (err, sv, c, rest) \<Longrightarrow>
   count_syn c \<le> count_syn conn + k"
proof (induction k arbitrary: retry conn evs)
  case 0
  then have "retry > 5" by simp
  with 0(2) show ?case by (subst (asm) dial_handshake.simps) simp
next
  case (Suc k)
  then have le: "\<not> retry > 5" and k: "6 - Suc retry = k" by simp_all
  note IH = Suc.IH [OF k]
  from Suc.prems(2) le show ?case
    apply (subst (asm) dial_handshake.simps)
    apply (simp add: Let_def split: prod.splits option.splits sum.splits if_splits)
    apply (auto dest!: count_syn_sendSyn count_syn_sendAck IH)
    done
qed

lemma http_syn_bound:
  "6 - retry = k \<Longrightarrow> dial_http retry req sv conn evs = Some (err, c, rest) \<Longrightarrow>
   count_syn c \<le> count_syn conn"
proof (induction k arbitrary: retry conn evs)
  case 0
  then have "retry > 5" by simp
  with 0(2) show ?case by (subst (asm) dial_http.simps) simp
next
  case (Suc k)
  then have le: "\<not> retry > 5" and k: "6 - Suc retry = k" by simp_all
  note IH = Suc.IH [OF k]
  from Suc.prems(2) le show ?case
    apply (subst (asm) dial_http.simps)
    apply (simp add: Let_def split: prod.splits option.splits sum.splits if_splits)
    apply (auto dest!: count_syn_write_seg count_syn_sendAck IH)
    done
qed

lemma count_syn_deferred: "count_syn (dial_deferred err conn) \<le> count_syn conn"
proof -
  have "count_syn (close_conn c) \<le> count_syn c" for c :: RAWConn
    using count_syn_sendFin [of c] by (simp add: close_conn_def Let_def)
  from this [of "conn\<lparr>rtimer := False\<rparr>"] show ?thesis
    by (simp add: dial_deferred_def Let_def split: option.splits error.splits)
qed

lemma count_syn_new: "count_syn (newRAWConn r e local remote outc rid rseq) = 0"
  by (simp add: count_syn_def newRAWConn_def)

lemma DialRAW_syn_bound:
  assumes "DialRAW r e local remote bld outc rid rseq evs = Some ((Some c, err), rest)"
  shows "count_syn c \<le> 6"
proof (cases "dial_handshake 0 (newRAWConn r e local remote outc rid rseq) evs")
  case None
  with assms show ?thesis by (simp add: DialRAW_def)
next
  case (Some res)
  then obtain herr sv ch hrest where
    h: "dial_handshake 0 (newRAWConn r e local remote outc rid rseq) evs = Some (herr, sv, ch, hrest)"
    by (cases res) auto
  from handshake_syn_bound [OF _ h] have hb: "count_syn ch \<le> 6"
    by (simp add: count_syn_new)
  show ?thesis
  proof (cases herr)
    case (Some x)
    with assms h have "c = dial_deferred (Some x) ch" by (auto simp: DialRAW_def)
    with hb count_syn_deferred [of "Some x" ch] show ?thesis by simp
  next
    case None
    show ?thesis
    proof (cases "NoHTTP r")
      case True
      with assms h None have "c = dial_deferred None ch" by (auto simp: DialRAW_def)
      with hb count_syn_deferred [of None ch] show ?thesis by simp
    next
      case False
      with assms h None obtain c' where
        p: "dial_http 0 (bld (buildHeaders r)) sv ch hrest = Some (err, c', rest)"
        and c: "c = dial_deferred err c'"
        by (auto simp: DialRAW_def split: option.splits)
      from http_syn_bound [OF _ p] hb have "count_syn c' \<le> 6" by simp
      with c count_syn_deferred [of err c'] show ?thesis by simp
    qed
  qed
qed

lemma syn_timeout_eq:
  assumes "deref conn = Some (p, l)"
  shows "syn_timeout conn
         = (after_send conn p l (sent_tcp Syn (tcp l)) (kept_tcp Syn (tcp l)))\<lparr>rtimer := True\<rparr>"
  using run_helper_eq [OF assms, of Syn] by (simp add: syn_timeout_def)

lemma syn_timeout_props:
  assumes "deref conn = Some (p, l)"
  shows "deref (syn_timeout conn) = Some (p, \<lparr>eth = eth l, ip4 = sent_ip l, tcp = kept_tcp Syn (tcp l)\<rparr>)"
    and "sends (syn_timeout conn) = Suc (sends conn)"
    and "inject (syn_timeout conn) = inject conn"
    and "udp (syn_timeout conn) = udp conn" and "handle (syn_timeout conn) = handle conn"
    and "rtimer (syn_timeout conn)"
    and "trace (syn_timeout conn)
         = trace conn @ emitted (inject conn (sends conn))
                          \<lparr>eth = eth l, ip4 = sent_ip l, tcp = sent_tcp Syn (tcp l)\<rparr>"
proof -
  from assms have lp: "layer conn = Some p" by (simp add: deref_Some)
  have "deref (syn_timeout conn)
        = deref (after_send conn p l (sent_tcp Syn (tcp l)) (kept_tcp Syn (tcp l)))"
    by (simp add: syn_timeout_eq [OF assms] deref_def split: option.splits)
  then show "deref (syn_timeout conn) = Some (p, \<lparr>eth = eth l, ip4 = sent_ip l, tcp = kept_tcp Syn (tcp l)\<rparr>)"
    by (simp only: deref_after_send [OF lp])
qed (simp_all add: syn_timeout_eq [OF assms] after_send_def)

lemma handshake_timeout_step:
  assumes "retry \<le> 5" and "deref conn = Some (p, l)" and "inject conn (sends conn) = None"
  shows "dial_handshake retry conn (TimerFired # evs) = dial_handshake (Suc retry) (syn_timeout conn) evs"
proof -
  have s: "sendSyn conn = (None, after_send conn p l (sent_tcp Syn (tcp l)) (kept_tcp Syn (tcp l)))"
    using run_helper_eq [OF assms(2), of Syn] assms(3) by simp
  note P = syn_timeout_props [OF assms(2)]
  have ra: "RemoteAddr (syn_timeout conn) \<noteq> None" by (simp add: RemoteAddr_def P(1))
  then obtain a where a: "RemoteAddr (syn_timeout conn) = Some a" by auto
  have r: "readLayers (syn_timeout conn) (TimerFired # evs)
           = Some (Inl (TimeoutErr (''read from '' @ UDPAddr_String a)), evs)"
    by (simp add: P(6) a)
  define c where "c = snd (sendSyn conn)"
  have s1: "sendSyn conn = (None, c)" using s by (simp add: c_def)
  have s2: "c\<lparr>rtimer := True\<rparr> = syn_timeout conn" by (simp add: c_def syn_timeout_def)
  show ?thesis
    using assms(1)
    by (subst dial_handshake.simps) (simp add: s1 s2 Let_def r del: readLayers.simps)
qed

lemma handshake_timeouts:
  "retry + k = 6 \<Longrightarrow> deref conn = Some (p, l) \<Longrightarrow>
   (\<forall>j<k. inject conn (sends conn + j) = None) \<Longrightarrow>
   dial_handshake retry conn (replicate k TimerFired @ rest)
   = Some (Some (ErrMsg ''retry too many times''), (0, 0), (syn_timeout ^^ k) conn, rest)"
proof (induction k arbitrary: retry conn l)
  case 0
  then show ?case by (subst dial_handshake.simps) simp
next
  case (Suc k)
  from Suc.prems have le: "retry \<le> 5" and rk: "Suc retry + k = 6"
    and i0: "inject conn (sends conn) = None" by auto
  note P = syn_timeout_props [OF Suc.prems(2)]
  have nx: "\<forall>j<k. inject (syn_timeout conn) (sends (syn_timeout conn) + j) = None"
    using Suc.prems(3) by (auto simp: P(2,3))
  have "dial_handshake retry conn (replicate (Suc k) TimerFired @ rest)
        = dial_handshake (Suc retry) (syn_timeout conn) (replicate k TimerFired @ rest)"
    using handshake_timeout_step [OF le Suc.prems(2) i0] by simp
  also have "\<dots> = Some (Some (ErrMsg ''retry too many times''), (0, 0),
                       (syn_timeout ^^ k) (syn_timeout conn), rest)"
    by (rule Suc.IH [OF rk P(1) nx])
  finally show ?case by (simp add: funpow_swap1)
qed

lemma syn_timeouts_props:
  "deref conn = Some (p, l) \<Longrightarrow> unwritten_clear (tcp l) \<Longrightarrow>
   (\<forall>j<k. inject conn (sends conn + j) = None) \<Longrightarrow>
   (\<exists>l'. deref ((syn_timeout ^^ k) conn) = Some (p, l') \<and> unwritten_clear (tcp l'))
   \<and> sends ((syn_timeout ^^ k) conn) = sends conn + k
   \<and> inject ((syn_timeout ^^ k) conn) = inject conn
   \<and> udp ((syn_timeout ^^ k) conn) = udp conn \<and> handle ((syn_timeout ^^ k) conn) = handle conn
   \<and> map (\<lambda>s. flags_of (tcp s)) (wire (trace ((syn_timeout ^^ k) conn)))
       = map (\<lambda>s. flags_of (tcp s)) (wire (trace conn)) @ replicate k {F_SYN}"
proof (induction k arbitrary: conn l)
  case 0
  then show ?case by simp
next
  case (Suc k)
  note P = syn_timeout_props [OF Suc.prems(1)]
  from Suc.prems(3) have i0: "inject conn (sends conn) = None" by auto
  have nx: "\<forall>j<k. inject (syn_timeout conn) (sends (syn_timeout conn) + j) = None"
    using Suc.prems(3) by (auto simp: P(2,3))
  have uc: "unwritten_clear (tcp \<lparr>eth = eth l, ip4 = sent_ip l, tcp = kept_tcp Syn (tcp l)\<rparr>)"
    using unwritten_kept_tcp [OF Suc.prems(2), of Syn] by simp
  have fl: "flags_of (sent_tcp Syn (tcp l)) = {F_SYN}"
    using flags_sent_tcp [OF Suc.prems(2), of Syn] by simp
  have tr: "map (\<lambda>s. flags_of (tcp s)) (wire (trace (syn_timeout conn)))
            = map (\<lambda>s. flags_of (tcp s)) (wire (trace conn)) @ [{F_SYN}]"
    by (simp add: P(7) i0 wire_append wire_emitted fl del: sent_tcp.simps)
  from Suc.IH [OF P(1) uc nx] show ?case
    by (simp add: funpow_swap1 P(2,3,4,5) tr replicate_append_same)
qed

lemma newRAWConn_props:
  "\<exists>l. deref (newRAWConn r e local remote outc rid rseq) = Some (0, l) \<and> unwritten_clear (tcp l)"
  "sends (newRAWConn r e local remote outc rid rseq) = 0"
  "inject (newRAWConn r e local remote outc rid rseq) = outc"
  "udp (newRAWConn r e local remote outc rid rseq)"
  "handle (newRAWConn r e local remote outc rid rseq)"
  "trace (newRAWConn r e local remote outc rid rseq) = []"
  by (simp_all add: newRAWConn_def deref_Some unwritten_clear_def)

lemma close_after_timeouts:
  assumes "deref c = Some (p, l)" and "unwritten_clear (tcp l)" and "udp c" and "handle c"
  shows "closed (dial_deferred (Some (ErrMsg m)) c)"
    and "map (\<lambda>s. flags_of (tcp s)) (wire (trace (dial_deferred (Some (ErrMsg m)) c)))
         = map (\<lambda>s. flags_of (tcp s)) (wire (trace c))
           @ (case inject c (sends c) of None \<Rightarrow> [{F_FIN}] | Some _ \<Rightarrow> [])"
proof -
  let ?c = "c\<lparr>rtimer := False\<rparr>"
  have d: "deref ?c = Some (p, l)" using assms(1) by (simp add: deref_Some)
  have fl: "flags_of (sent_tcp Fin (tcp l)) = {F_FIN}"
    using flags_sent_tcp [OF assms(2), of Fin] by simp
  have e: "dial_deferred (Some (ErrMsg m)) c
           = (after_send ?c p l (sent_tcp Fin (tcp l)) (kept_tcp Fin (tcp l)))\<lparr>closed := True\<rparr>"
    using run_helper_eq [OF d, of Fin] assms(3,4)
    by (simp add: dial_deferred_def close_conn_def Let_def)
  show "closed (dial_deferred (Some (ErrMsg m)) c)" by (simp add: e)
  show "map (\<lambda>s. flags_of (tcp s)) (wire (trace (dial_deferred (Some (ErrMsg m)) c)))
         = map (\<lambda>s. flags_of (tcp s)) (wire (trace c))
           @ (case inject c (sends c) of None \<Rightarrow> [{F_FIN}] | Some _ \<Rightarrow> [])"
    by (simp add: e trace_after_send wire_append wire_emitted fl del: sent_tcp.simps split: option.splits)
qed

lemma DialRAW_timeouts:
  assumes "\<forall>k<6. outc k = None"
  shows "\<exists>c. DialRAW r e local remote bld outc rid rseq (replicate 6 TimerFired @ rest)
               = Some ((Some c, Some (ErrMsg ''retry too many times'')), rest)
             \<and> closed c
             \<and> map (\<lambda>s. flags_of (tcp s)) (wire (trace c))
                 = replicate 6 {F_SYN} @ (case outc 6 of None \<Rightarrow> [{F_FIN}] | Some _ \<Rightarrow> [])"
proof -
  let ?c0 = "newRAWConn r e local remote outc rid rseq"
  from newRAWConn_props(1) [of r e local remote outc rid rseq]
  obtain l where d: "deref ?c0 = Some (0, l)" and u: "unwritten_clear (tcp l)" by blast
  have i: "\<forall>j<6. inject ?c0 (sends ?c0 + j) = None"
    using assms by (simp add: newRAWConn_props)
  let ?c6 = "(syn_timeout ^^ 6) ?c0"
  have h: "dial_handshake 0 ?c0 (replicate 6 TimerFired @ rest)
           = Some (Some (ErrMsg ''retry too many times''), (0, 0), ?c6, rest)"
    by (rule handshake_timeouts [OF _ d i]) simp
  from syn_timeouts_props [OF d u i]
  obtain l' where d6: "deref ?c6 = Some (0, l')" and u6: "unwritten_clear (tcp l')"
    and s6: "sends ?c6 = 6" "inject ?c6 = outc" "udp ?c6" "handle ?c6"
    and t6: "map (\<lambda>s. flags_of (tcp s)) (wire (trace ?c6)) = replicate 6 {F_SYN}"
    by (auto simp: newRAWConn_props)
  note C = close_after_timeouts [OF d6 u6 s6(3,4), of "''retry too many times''"]
  have "DialRAW r e local remote bld outc rid rseq (replicate 6 TimerFired @ rest)
        = Some ((Some (dial_deferred (Some (ErrMsg ''retry too many times'')) ?c6),
                 Some (ErrMsg ''retry too many times'')), rest)"
    by (simp add: DialRAW_def h)
  with C show ?thesis by (simp add: t6 s6)
qed

text \<open>
  Claim C4, as the code has it. When every SYN can be sent and each of the first six
  reads ends in the read timeout (a temporary error), \<open>DialRAW\<close> sends exactly six
  SYNs and then fails with the error \<open>retry too many times\<close>, which is not
  temporary; the deferred \<open>conn.Close()\<close> sends a FIN and closes the connection, and
  the named result \<open>conn\<close> that is returned with the error is this closed
  connection, not nil. On every run of \<open>DialRAW\<close> at most six segments with SYN
  reach the wire.
\<close>

theorem dial_retry_exhausted:
  "((\<forall>k<6. outc k = None) \<longrightarrow>
      (\<exists>c. DialRAW r e local remote bld outc rid rseq (replicate 6 TimerFired @ rest)
              = Some ((Some c, Some (ErrMsg ''retry too many times'')), rest)
            \<and> closed c
            \<and> map (\<lambda>s. flags_of (tcp s)) (wire (trace c))
                = replicate 6 {F_SYN} @ (case outc 6 of None \<Rightarrow> [{F_FIN}] | Some _ \<Rightarrow> [])))
   \<and> \<not> Temporary (ErrMsg ''retry too many times'')
   \<and> (DialRAW r e local remote bld outc rid rseq evs = Some ((Some c', err), rest') \<longrightarrow>
        count_syn c' \<le> 6)"
  using DialRAW_timeouts [of outc r e local remote bld rid rseq rest]
        DialRAW_syn_bound [of r e local remote bld outc rid rseq evs c' err rest']
  by simp

theorem dial_retry_exhausted_witness:
  "send_ok 0 = None \<and> send_ok 5 = None
   \<and> (\<exists>c. ex_dial send_ok (replicate 6 TimerFired)
            = Some ((Some c, Some (ErrMsg ''retry too many times'')), [])
          \<and> closed c
          \<and> map (\<lambda>s. flags_of (tcp s)) (wire (trace c)) = replicate 6 {F_SYN} @ [{F_FIN}]
          \<and> count_syn c \<le> 6)"
proof -
  have a: "\<forall>k<6. send_ok k = None" by (simp add: send_ok_def)
  note T = dial_retry_exhausted [where outc = send_ok and r = ex_raw and e = None
             and local = "\<lparr>IP_of = IPv4 10 0 0 1, Port = 4000\<rparr>"
             and remote = "\<lparr>IP_of = IPv4 10 0 0 2, Port = 80\<rparr>" and bld = ex_request
             and rid = "\<lambda>_. 7" and rseq = "\<lambda>_. 1000" and rest = "[]"
             and evs = "replicate 6 TimerFired"]
  from T [THEN conjunct1, THEN mp, OF a]
  obtain c where c: "ex_dial send_ok (replicate 6 TimerFired)
            = Some ((Some c, Some (ErrMsg ''retry too many times'')), [])" "closed c"
          "map (\<lambda>s. flags_of (tcp s)) (wire (trace c)) = replicate 6 {F_SYN} @ [{F_FIN}]"
    by (auto simp: ex_dial_def send_ok_def)
  from T [THEN conjunct2, THEN conjunct2, of c "Some (ErrMsg ''retry too many times'')" "[]"] c(1)
  have "count_syn c \<le> 6" by (simp add: ex_dial_def)
  with c show ?thesis by (auto simp: send_ok_def)
qed

text \<open>
  Claim C4 as stated fails where it says that no connection is returned: after six
  timeouts \<open>DialRAW\<close> returns the error together with a connection value that is
  not nil.
\<close>

theorem dial_returns_closed_conn_counterexample:
  "returned_err (ex_dial send_ok (replicate 6 TimerFired)) = Some (ErrMsg ''retry too many times'')
   \<and> returned_conn (ex_dial send_ok (replicate 6 TimerFired)) \<noteq> None"
proof -
  have "\<forall>k<6. send_ok k = None" by (simp add: send_ok_def)
  from DialRAW_timeouts [OF this, of ex_raw None "\<lparr>IP_of = IPv4 10 0 0 1, Port = 4000\<rparr>"
         "\<lparr>IP_of = IPv4 10 0 0 2, Port = 80\<rparr>" ex_request "\<lambda>_. 7" "\<lambda>_. 1000" "[]"]
  show ?thesis
    by (auto simp: ex_dial_def returned_err_def returned_conn_def)
qed

end
